theory Spec2Isabelle
  imports Complex_Main
begin

section \<open>Python values and strings\<close>

text \<open>
  A Python \<open>str\<close> is a sequence of code points. It is modelled by \<^typ>\<open>string\<close>, each
  \<^typ>\<open>char\<close> standing for the code point of the same number, so the model covers the
  strings over U+0000 .. U+00FF. The string methods below are the restrictions of
  Python's to that range.

  The exceptions the modelled code can raise, and the message boxes of the two dialogs,
  are values of \<open>error\<close>.
\<close>

datatype error =
    ValueError
  | MissingFields
  | InvalidPotential
  | InvalidStatus
  | MissingLost
  | InvalidLost
  | MissingSpoolId
  | InvalidSize
  | MissingMaterial
  | MissingColor

text \<open>\<open>s.startswith(p)\<close>.\<close>

fun startswith :: "string \<Rightarrow> string \<Rightarrow> bool" where
  "startswith s [] = True"
| "startswith [] (p # ps) = False"
| "startswith (c # cs) (p # ps) = (c = p \<and> startswith cs ps)"

text \<open>\<open>s.split(sep)\<close> for a separator of one character: never the empty list.\<close>

fun split :: "char \<Rightarrow> string \<Rightarrow> string list" where
  "split sep [] = [[]]"
| "split sep (c # cs) =
     (if c = sep then [] # split sep cs
      else (case split sep cs of
              [] \<Rightarrow> [[c]]
            | w # ws \<Rightarrow> (c # w) # ws))"

text \<open>
  \<open>str.isdigit\<close>: the string is not empty and every character has the Unicode property
  Numeric\_Type=Digit or Decimal. Below U+0100 these are the ten ASCII digits and the
  superscripts U+00B2, U+00B3, U+00B9.
\<close>

definition is_decimal_char :: "char \<Rightarrow> bool" where
  "is_decimal_char c = (c \<in> set ''0123456789'')"

definition isdigit_char :: "char \<Rightarrow> bool" where
  "isdigit_char c = (is_decimal_char c \<or> c \<in> set [CHR 0xB2, CHR 0xB3, CHR 0xB9])"

definition isdigit :: "string \<Rightarrow> bool" where
  "isdigit s = (s \<noteq> [] \<and> list_all isdigit_char s)"

text \<open>
  \<open>int(s)\<close> on a string that passed \<open>isdigit\<close> (the only call in the program): the
  decimal value when every character is a decimal digit, \<open>ValueError\<close> otherwise
  (\<open>int\<close> does not read the superscript digits). Python's integers are unbounded.
  The limit that CPython puts, from version 3.11 on, on the number of digits that \<open>int\<close>
  reads and that a format writes (4300 unless \<open>sys.set_int_max_str_digits\<close> changes it)
  is not modelled: \<open>py_int\<close> and \<open>format_04d\<close> are those of an interpreter without the
  limit, and what is proved of numbers holds of the limited one for numbers of at most
  4300 digits.
\<close>

definition digit_val :: "char \<Rightarrow> nat" where
  "digit_val c = (case map_of (zip ''0123456789'' [0, 1, 2, 3, 4, 5, 6, 7, 8, 9]) c of
                    Some d \<Rightarrow> d | None \<Rightarrow> 0)"

definition decimal_value :: "string \<Rightarrow> nat" where
  "decimal_value s = foldl (\<lambda>n c. 10 * n + digit_val c) 0 s"

definition all_decimal :: "string \<Rightarrow> bool" where
  "all_decimal s = (s \<noteq> [] \<and> list_all is_decimal_char s)"

definition py_int :: "string \<Rightarrow> error + nat" where
  "py_int s = (if all_decimal s then Inr (decimal_value s) else Inl ValueError)"

text \<open>\<open>f"{n:04d}"\<close> for \<open>n \<ge> 0\<close>: the decimal digits, padded with zeros on the left to
  a width of at least four.\<close>

definition digit_char :: "nat \<Rightarrow> char" where
  "digit_char d = ''0123456789'' ! d"

fun dec :: "nat \<Rightarrow> string" where
  "dec n = (if n < 10 then [digit_char n] else dec (n div 10) @ [digit_char (n mod 10)])"

definition format_04d :: "nat \<Rightarrow> string" where
  "format_04d n = replicate (4 - length (dec n)) (CHR ''0'') @ dec n"

section \<open>Spool ID generation\<close>

text \<open>
  \<open>gen_spool_id\<close>. The date \<open>datetime.now().strftime("%Y%m%d")\<close> is the parameter
  \<open>date\<close>. The loop is \<open>scan\<close>, with the list \<open>nums\<close> as accumulator; an exception
  raised by \<open>int\<close> leaves the function.
\<close>

definition prefix_of :: "string \<Rightarrow> string" where
  "prefix_of date = ''SP-'' @ date @ ''-''"

fun scan :: "string \<Rightarrow> string list \<Rightarrow> nat list \<Rightarrow> error + nat list" where
  "scan prefix [] nums = Inr nums"
| "scan prefix (sid # rest) nums =
     (if startswith sid prefix then
        (let tail = last (split (CHR ''-'') sid) in
         if isdigit tail then
           (case py_int tail of
              Inl e \<Rightarrow> Inl e
            | Inr n \<Rightarrow> scan prefix rest (nums @ [n]))
         else scan prefix rest nums)
      else scan prefix rest nums)"

text \<open>\<open>max(nums)\<close> on a list that is not empty.\<close>

fun py_max :: "nat list \<Rightarrow> nat" where
  "py_max [] = 0"
| "py_max (n # ns) = fold max ns n"

definition gen_spool_id :: "string \<Rightarrow> string list \<Rightarrow> error + string" where
  "gen_spool_id date existing_ids =
     (let prefix = prefix_of date in
      case scan prefix existing_ids [] of
        Inl e \<Rightarrow> Inl e
      | Inr nums \<Rightarrow>
          (let next_num = (if nums \<noteq> [] then py_max nums + 1 else 1)
           in Inr (prefix @ format_04d next_num)))"

text \<open>
  The words of the specification: the substring after the last \<open>-\<close>; an id is
  \<open>numbered\<close> when it starts with today's prefix and that substring is a decimal
  number; the numbers found; the suffix of the new id; the new id.
  An id is \<open>unreadable\<close> when it starts with today's prefix and the substring passes
  \<open>isdigit\<close> although \<open>int\<close> rejects it.
\<close>

definition after_last_dash :: "string \<Rightarrow> string" where
  "after_last_dash sid = rev (takeWhile (\<lambda>c. c \<noteq> CHR ''-'') (rev sid))"

definition numbered :: "string \<Rightarrow> string \<Rightarrow> bool" where
  "numbered prefix sid = (startswith sid prefix \<and> all_decimal (after_last_dash sid))"

definition unreadable :: "string \<Rightarrow> string \<Rightarrow> bool" where
  "unreadable prefix sid =
     (startswith sid prefix \<and> isdigit (after_last_dash sid)
      \<and> \<not> all_decimal (after_last_dash sid))"

definition todays_numbers :: "string \<Rightarrow> string list \<Rightarrow> nat list" where
  "todays_numbers prefix ids =
     map (\<lambda>sid. decimal_value (after_last_dash sid)) (filter (numbered prefix) ids)"

definition next_suffix :: "string \<Rightarrow> string list \<Rightarrow> string" where
  "next_suffix prefix ids =
     (let nums = todays_numbers prefix ids in
      if nums = [] then ''0001'' else format_04d (Max (set nums) + 1))"

definition spec_spool_id :: "string \<Rightarrow> string list \<Rightarrow> string" where
  "spec_spool_id date ids = prefix_of date @ next_suffix (prefix_of date) ids"

section \<open>Values, dictionaries, whitespace and case\<close>

text \<open>
  The values the program keeps in its dictionaries are strings, and \<open>None\<close> where
  \<open>csv.DictReader\<close> fills a short row. A \<open>dict\<close> with string keys is a map;
  \<open>dict_get r k d\<close> is \<open>r.get(k, d)\<close>, \<open>dict_comp keys f\<close> is the comprehension
  \<open>{k: f(k) for k in keys}\<close>, \<open>py_or_empty v\<close> is \<open>(v or "")\<close> and \<open>truthy v\<close> is
  the truth value of \<open>v\<close>.
\<close>

datatype pyval = Str string | PyNone

type_synonym row = "string \<rightharpoonup> pyval"

definition dict_get :: "row \<Rightarrow> string \<Rightarrow> pyval \<Rightarrow> pyval" where
  "dict_get r k d = (case r k of Some v \<Rightarrow> v | None \<Rightarrow> d)"

definition dict_comp :: "string list \<Rightarrow> (string \<Rightarrow> pyval) \<Rightarrow> row" where
  "dict_comp keys f = map_of (map (\<lambda>k. (k, f k)) keys)"

definition py_or_empty :: "pyval \<Rightarrow> string" where
  "py_or_empty v = (case v of Str s \<Rightarrow> s | PyNone \<Rightarrow> [])"

definition truthy :: "pyval \<Rightarrow> bool" where
  "truthy v = (case v of Str s \<Rightarrow> s \<noteq> [] | PyNone \<Rightarrow> False)"

text \<open>
  \<open>str.strip()\<close> removes the leading and trailing characters for which \<open>str.isspace\<close>
  holds; below U+0100 these are U+0009 .. U+000D, U+001C .. U+0020, U+0085 and U+00A0.
  \<open>str.lower()\<close> maps \<open>A\<close> .. \<open>Z\<close> and U+00C0 .. U+00DE (but not U+00D7) to the
  character 32 places further on and leaves the rest of the range alone.
\<close>

definition isspace_char :: "char \<Rightarrow> bool" where
  "isspace_char c =
     (c \<in> set [CHR 0x09, CHR 0x0A, CHR 0x0B, CHR 0x0C, CHR 0x0D, CHR 0x1C, CHR 0x1D,
                CHR 0x1E, CHR 0x1F, CHR 0x20, CHR 0x85, CHR 0xA0])"

definition strip :: "string \<Rightarrow> string" where
  "strip s = rev (dropWhile isspace_char (rev (dropWhile isspace_char s)))"

definition upper_chars :: "char list" where
  "upper_chars = ''ABCDEFGHIJKLMNOPQRSTUVWXYZ'' @
     [CHR 0xC0, CHR 0xC1, CHR 0xC2, CHR 0xC3, CHR 0xC4, CHR 0xC5, CHR 0xC6, CHR 0xC7,
      CHR 0xC8, CHR 0xC9, CHR 0xCA, CHR 0xCB, CHR 0xCC, CHR 0xCD, CHR 0xCE, CHR 0xCF,
      CHR 0xD0, CHR 0xD1, CHR 0xD2, CHR 0xD3, CHR 0xD4, CHR 0xD5, CHR 0xD6,
      CHR 0xD8, CHR 0xD9, CHR 0xDA, CHR 0xDB, CHR 0xDC, CHR 0xDD, CHR 0xDE]"

definition lower_chars :: "char list" where
  "lower_chars = ''abcdefghijklmnopqrstuvwxyz'' @
     [CHR 0xE0, CHR 0xE1, CHR 0xE2, CHR 0xE3, CHR 0xE4, CHR 0xE5, CHR 0xE6, CHR 0xE7,
      CHR 0xE8, CHR 0xE9, CHR 0xEA, CHR 0xEB, CHR 0xEC, CHR 0xED, CHR 0xEE, CHR 0xEF,
      CHR 0xF0, CHR 0xF1, CHR 0xF2, CHR 0xF3, CHR 0xF4, CHR 0xF5, CHR 0xF6,
      CHR 0xF8, CHR 0xF9, CHR 0xFA, CHR 0xFB, CHR 0xFC, CHR 0xFD, CHR 0xFE]"

definition lower_char :: "char \<Rightarrow> char" where
  "lower_char c = (case map_of (zip upper_chars lower_chars) c of Some l \<Rightarrow> l | None \<Rightarrow> c)"

definition lower :: "string \<Rightarrow> string" where
  "lower s = map lower_char s"

section \<open>Schemas and numbers\<close>

definition JOB_COLS :: "string list" where
  "JOB_COLS = [''Date'', ''Name of Job'', ''Grams Potential'', ''Status'', ''Lost (g)'',
               ''Spool ID'']"

definition SPOOL_COLS :: "string list" where
  "SPOOL_COLS = [''Spool ID'', ''Material'', ''Other Material'', ''Color'', ''Other Color'',
                 ''Spool Size (g)'', ''Notes'', ''Created'']"

definition STATUSES :: "string list" where
  "STATUSES = [''init'', ''success'', ''failed'', ''pending'']"

text \<open>
  Python's \<open>float\<close> is a parameter of the model, \<open>pfloat :: string \<Rightarrow> 'f option\<close>, with
  \<open>None\<close> where it raises; the type \<open>'f\<close> of the numbers and its arithmetic are left
  open (only \<open>0\<close>, \<open>+\<close>, \<open>-\<close> and \<open><\<close> are used, and no law of theirs is assumed),
  so what is proved holds of the floating-point numbers as well.
  \<open>float(None)\<close> raises \<open>TypeError\<close>, which the bare \<open>except\<close> of \<open>safe_float\<close>
  catches too. \<open>pymax a b\<close> is \<open>max(a, b)\<close>: \<open>b\<close> when \<open>b > a\<close>, else \<open>a\<close>.
\<close>

definition safe_float :: "(string \<Rightarrow> 'f option) \<Rightarrow> pyval \<Rightarrow> 'f::zero" where
  "safe_float pfloat v =
     (case v of
        Str s \<Rightarrow> (case pfloat s of Some x \<Rightarrow> x | None \<Rightarrow> 0)
      | PyNone \<Rightarrow> 0)"

definition is_float :: "(string \<Rightarrow> 'f option) \<Rightarrow> string \<Rightarrow> bool" where
  "is_float pfloat s = (pfloat s \<noteq> None)"

definition pymax :: "'f \<Rightarrow> 'f \<Rightarrow> 'f::ord" where
  "pymax a b = (if a < b then b else a)"

section \<open>Totals\<close>

text \<open>
  \<open>App.update_totals\<close>, as a function of the rows of the two tables
  (\<open>jobs_table_to_rows()\<close>, \<open>spools_table_to_rows()\<close>) and of the selected filter.
  The three accumulators of the loop are the record \<open>acc\<close>. The result holds the
  numbers that the four labels show (there formatted with two decimals); the label of
  the remaining grams shows no number when the filter is \<open>(All)\<close>.
\<close>

record 'f acc =
  total_potential :: 'f
  total_lost :: 'f
  total_consumed :: 'f

record 'f totals =
  total_potential_var :: 'f
  total_lost_var :: 'f
  total_consumed_var :: 'f
  spool_remaining_var :: "'f option"

definition passes :: "string \<Rightarrow> row \<Rightarrow> bool" where
  "passes filter_sid r =
     (if filter_sid = ''(All)'' then True
      else dict_get r ''Spool ID'' (Str []) = Str filter_sid)"

fun totals_loop ::
  "(string \<Rightarrow> 'f option) \<Rightarrow> string \<Rightarrow> row list \<Rightarrow> 'f acc \<Rightarrow> ('f::{zero,plus}) acc" where
  "totals_loop pfloat filter_sid [] a = a"
| "totals_loop pfloat filter_sid (r # rows) a =
     (if \<not> passes filter_sid r then totals_loop pfloat filter_sid rows a
      else
        (let potential = safe_float pfloat (dict_get r ''Grams Potential'' (Str []));
             status = lower (strip (py_or_empty (dict_get r ''Status'' (Str []))));
             lost = safe_float pfloat (dict_get r ''Lost (g)'' (Str []));
             a1 = a\<lparr>total_potential := total_potential a + potential\<rparr>;
             a2 = (if status = ''success'' then
                     a1\<lparr>total_consumed := total_consumed a1 + potential\<rparr>
                   else if status = ''failed'' then
                     a1\<lparr>total_lost := total_lost a1 + lost,
                        total_consumed := total_consumed a1 + lost\<rparr>
                   else a1)
         in totals_loop pfloat filter_sid rows a2))"

fun spool_size :: "(string \<Rightarrow> 'f option) \<Rightarrow> string \<Rightarrow> row list \<Rightarrow> 'f::zero" where
  "spool_size pfloat filter_sid [] = 0"
| "spool_size pfloat filter_sid (s # rest) =
     (if dict_get s ''Spool ID'' (Str []) = Str filter_sid
      then safe_float pfloat (dict_get s ''Spool Size (g)'' (Str []))
      else spool_size pfloat filter_sid rest)"

definition update_totals ::
  "(string \<Rightarrow> 'f option) \<Rightarrow> row list \<Rightarrow> row list \<Rightarrow> string
     \<Rightarrow> ('f::{zero,plus,minus,ord}) totals" where
  "update_totals pfloat jobs spools filter_sid =
     (let a = totals_loop pfloat filter_sid jobs
                \<lparr>total_potential = 0, total_lost = 0, total_consumed = 0\<rparr>
      in \<lparr>total_potential_var = total_potential a,
          total_lost_var = total_lost a,
          total_consumed_var = total_consumed a,
          spool_remaining_var =
            (if filter_sid \<noteq> ''(All)'' then
               (let size = spool_size pfloat filter_sid spools;
                    remaining = pymax (size - total_consumed a) 0
                in Some remaining)
             else None)\<rparr>)"

text \<open>
  The words of the specification for the totals: which jobs are included, what a job
  contributes, and each total as the sum, from left to right and starting at \<open>0\<close>, of the
  contributions of the jobs that make one.
\<close>

definition included :: "string \<Rightarrow> row \<Rightarrow> bool" where
  "included spool_filter job =
     (spool_filter = ''(All)'' \<or> dict_get job ''Spool ID'' (Str []) = Str spool_filter)"

definition potential_of :: "(string \<Rightarrow> 'f option) \<Rightarrow> row \<Rightarrow> 'f::zero" where
  "potential_of pfloat job = safe_float pfloat (dict_get job ''Grams Potential'' (Str []))"

definition lost_of :: "(string \<Rightarrow> 'f option) \<Rightarrow> row \<Rightarrow> 'f::zero" where
  "lost_of pfloat job = safe_float pfloat (dict_get job ''Lost (g)'' (Str []))"

definition status_of :: "row \<Rightarrow> string" where
  "status_of job = lower (strip (py_or_empty (dict_get job ''Status'' (Str []))))"

definition sum_left :: "'f list \<Rightarrow> 'f::{zero,plus}" where
  "sum_left xs = foldl (+) 0 xs"

definition spec_potential :: "(string \<Rightarrow> 'f option) \<Rightarrow> string \<Rightarrow> row list \<Rightarrow> 'f::{zero,plus}" where
  "spec_potential pfloat spool_filter jobs =
     sum_left (map (potential_of pfloat) (filter (included spool_filter) jobs))"

definition spec_consumed :: "(string \<Rightarrow> 'f option) \<Rightarrow> string \<Rightarrow> row list \<Rightarrow> 'f::{zero,plus}" where
  "spec_consumed pfloat spool_filter jobs =
     sum_left
       (map (\<lambda>job. if status_of job = ''success'' then potential_of pfloat job
                    else lost_of pfloat job)
          (filter (\<lambda>job. included spool_filter job
                          \<and> (status_of job = ''success'' \<or> status_of job = ''failed''))
             jobs))"

definition spec_lost :: "(string \<Rightarrow> 'f option) \<Rightarrow> string \<Rightarrow> row list \<Rightarrow> 'f::{zero,plus}" where
  "spec_lost pfloat spool_filter jobs =
     sum_left
       (map (lost_of pfloat)
          (filter (\<lambda>job. included spool_filter job \<and> status_of job = ''failed'') jobs))"

definition spec_size :: "(string \<Rightarrow> 'f option) \<Rightarrow> string \<Rightarrow> row list \<Rightarrow> 'f::zero" where
  "spec_size pfloat spool_filter spools =
     (case find (\<lambda>s. dict_get s ''Spool ID'' (Str []) = Str spool_filter) spools of
        None \<Rightarrow> 0
      | Some s \<Rightarrow> safe_float pfloat (dict_get s ''Spool Size (g)'' (Str [])))"

text \<open>
  Rows and a table of \<open>float\<close> for the examples: \<open>example_float\<close> has the values of
  Python's \<open>float\<close> on the strings that occur in them.
\<close>

definition example_float :: "string \<Rightarrow> real option" where
  "example_float = map_of [(''100'', 100), (''50'', 50), (''10'', 10), (''1000'', 1000),
     (''1200'', 1200), (''-5'', -5), (''5'', 5)]"

definition example_job :: "string \<Rightarrow> string \<Rightarrow> string \<Rightarrow> string \<Rightarrow> row" where
  "example_job potential status lost sid =
     [''Date'' \<mapsto> Str ''2024-01-01'', ''Name of Job'' \<mapsto> Str ''part'',
      ''Grams Potential'' \<mapsto> Str potential, ''Status'' \<mapsto> Str status,
      ''Lost (g)'' \<mapsto> Str lost, ''Spool ID'' \<mapsto> Str sid]"

definition example_spool :: "string \<Rightarrow> string \<Rightarrow> row" where
  "example_spool sid grams =
     [''Spool ID'' \<mapsto> Str sid, ''Material'' \<mapsto> Str ''PLA'', ''Other Material'' \<mapsto> Str [],
      ''Color'' \<mapsto> Str ''Black'', ''Other Color'' \<mapsto> Str [],
      ''Spool Size (g)'' \<mapsto> Str grams, ''Notes'' \<mapsto> Str [],
      ''Created'' \<mapsto> Str ''2024-01-01'']"

section \<open>The dialogs\<close>

text \<open>
  The tables on screen hold, for every row, the list of its values in schema order
  (\<open>Treeview.insert(..., values=[data.get(c, "") for c in COLS])\<close>);
  \<open>table_to_rows\<close> is \<open>jobs_table_to_rows\<close> and \<open>spools_table_to_rows\<close>.
\<close>

type_synonym table = "pyval list list"

definition tree_values :: "string list \<Rightarrow> row \<Rightarrow> pyval list" where
  "tree_values cols data = map (\<lambda>c. dict_get data c (Str [])) cols"

definition table_to_rows :: "string list \<Rightarrow> table \<Rightarrow> row list" where
  "table_to_rows cols tbl = map (\<lambda>vals. map_of (zip cols vals)) tbl"

text \<open>
  \<open>JobDialog.ok\<close>. The form is the six \<open>StringVar\<close>s of the dialog. A message box
  followed by \<open>return\<close> is the result \<open>Inl\<close> of its error: \<open>on_ok\<close> is not called and
  the dialog stays open with what was typed. Otherwise \<open>on_ok(data)\<close> is called, which
  is \<open>_add_job_row\<close> for the Add dialog and \<open>_edit_job_row\<close>, on the selected row
  \<open>iid\<close>, for the Edit dialog.
\<close>

record job_form =
  date_var :: string
  name_var :: string
  potential_var :: string
  status_var :: string
  lost_var :: string
  spool_var :: string

definition job_data :: "job_form \<Rightarrow> row" where
  "job_data form =
     (let date = strip (date_var form);
          name = strip (name_var form);
          potential = strip (potential_var form);
          status = lower (strip (status_var form));
          lost = strip (lost_var form);
          spool_id = strip (spool_var form)
      in [''Date'' \<mapsto> Str date,
          ''Name of Job'' \<mapsto> Str name,
          ''Grams Potential'' \<mapsto> Str potential,
          ''Status'' \<mapsto> Str status,
          ''Lost (g)'' \<mapsto> Str (if status = ''failed'' then lost else []),
          ''Spool ID'' \<mapsto> Str spool_id])"

definition JobDialog_ok :: "(string \<Rightarrow> 'f option) \<Rightarrow> job_form \<Rightarrow> error + row" where
  "JobDialog_ok pfloat form =
     (let date = strip (date_var form);
          name = strip (name_var form);
          potential = strip (potential_var form);
          status = lower (strip (status_var form));
          lost = strip (lost_var form)
      in if date = [] \<or> name = [] then Inl MissingFields
         else if potential \<noteq> [] \<and> \<not> is_float pfloat potential then Inl InvalidPotential
         else if status \<notin> set STATUSES then Inl InvalidStatus
         else if status = ''failed'' then
           (if lost = [] \<or> \<not> is_float pfloat lost then Inl MissingLost
            else Inr (job_data form))
         else
           (if lost \<noteq> [] \<and> \<not> is_float pfloat lost then Inl InvalidLost
            else Inr (job_data form)))"

definition add_job_row :: "row \<Rightarrow> table \<Rightarrow> table" where
  "add_job_row data tbl = tbl @ [tree_values JOB_COLS data]"

definition edit_job_row :: "nat \<Rightarrow> row \<Rightarrow> table \<Rightarrow> table" where
  "edit_job_row iid data tbl = tbl[iid := tree_values JOB_COLS data]"

definition add_job :: "(string \<Rightarrow> 'f option) \<Rightarrow> job_form \<Rightarrow> table \<Rightarrow> table \<times> error option" where
  "add_job pfloat form tbl =
     (case JobDialog_ok pfloat form of
        Inl e \<Rightarrow> (tbl, Some e)
      | Inr data \<Rightarrow> (add_job_row data tbl, None))"

definition edit_job ::
  "(string \<Rightarrow> 'f option) \<Rightarrow> nat \<Rightarrow> job_form \<Rightarrow> table \<Rightarrow> table \<times> error option" where
  "edit_job pfloat iid form tbl =
     (case JobDialog_ok pfloat form of
        Inl e \<Rightarrow> (tbl, Some e)
      | Inr data \<Rightarrow> (edit_job_row iid data tbl, None))"

text \<open>
  The words of the specification for the validation of a job: four rules, each giving
  its error or nothing, and the first failure in their order.
\<close>

fun first_failure :: "error option list \<Rightarrow> error option" where
  "first_failure [] = None"
| "first_failure (Some e # rules) = Some e"
| "first_failure (None # rules) = first_failure rules"

definition rule_required :: "job_form \<Rightarrow> error option" where
  "rule_required form =
     (if strip (date_var form) = [] \<or> strip (name_var form) = [] then Some MissingFields
      else None)"

definition rule_potential :: "(string \<Rightarrow> 'f option) \<Rightarrow> job_form \<Rightarrow> error option" where
  "rule_potential pfloat form =
     (if strip (potential_var form) \<noteq> [] \<and> pfloat (strip (potential_var form)) = None
      then Some InvalidPotential else None)"

definition rule_status :: "job_form \<Rightarrow> error option" where
  "rule_status form =
     (if lower (strip (status_var form)) \<in> set STATUSES then None else Some InvalidStatus)"

definition rule_lost :: "(string \<Rightarrow> 'f option) \<Rightarrow> job_form \<Rightarrow> error option" where
  "rule_lost pfloat form =
     (if lower (strip (status_var form)) = ''failed'' then
        (if strip (lost_var form) = [] \<or> pfloat (strip (lost_var form)) = None
         then Some MissingLost else None)
      else
        (if strip (lost_var form) \<noteq> [] \<and> pfloat (strip (lost_var form)) = None
         then Some InvalidLost else None))"

definition job_rules :: "(string \<Rightarrow> 'f option) \<Rightarrow> job_form \<Rightarrow> error option list" where
  "job_rules pfloat form =
     [rule_required form, rule_potential pfloat form, rule_status form, rule_lost pfloat form]"

text \<open>\<open>SpoolDialog.ok\<close>, in the same way.\<close>

record spool_form =
  id_var :: string
  material_var :: string
  other_mat_var :: string
  color_var :: string
  other_color_var :: string
  size_var :: string
  notes_var :: string
  created_var :: string

definition spool_data :: "spool_form \<Rightarrow> row" where
  "spool_data form =
     (let sid = strip (id_var form);
          mat = strip (material_var form);
          other_mat = strip (other_mat_var form);
          col = strip (color_var form);
          other = strip (other_color_var form);
          sz = strip (size_var form);
          notes = strip (notes_var form);
          created = strip (created_var form)
      in [''Spool ID'' \<mapsto> Str sid,
          ''Material'' \<mapsto> Str mat,
          ''Other Material'' \<mapsto> Str (if mat = ''Other'' then other_mat else []),
          ''Color'' \<mapsto> Str col,
          ''Other Color'' \<mapsto> Str (if col = ''Other'' then other else []),
          ''Spool Size (g)'' \<mapsto> Str sz,
          ''Notes'' \<mapsto> Str notes,
          ''Created'' \<mapsto> Str created])"

definition SpoolDialog_ok :: "(string \<Rightarrow> 'f option) \<Rightarrow> spool_form \<Rightarrow> error + row" where
  "SpoolDialog_ok pfloat form =
     (let sid = strip (id_var form);
          mat = strip (material_var form);
          other_mat = strip (other_mat_var form);
          col = strip (color_var form);
          other = strip (other_color_var form);
          sz = strip (size_var form)
      in if sid = [] then Inl MissingSpoolId
         else if sz = [] \<or> \<not> is_float pfloat sz then Inl InvalidSize
         else if mat = ''Other'' \<and> other_mat = [] then Inl MissingMaterial
         else if col = ''Other'' \<and> other = [] then Inl MissingColor
         else Inr (spool_data form))"

definition add_spool_row :: "row \<Rightarrow> table \<Rightarrow> table" where
  "add_spool_row data tbl = tbl @ [tree_values SPOOL_COLS data]"

definition edit_spool_row :: "nat \<Rightarrow> row \<Rightarrow> table \<Rightarrow> table" where
  "edit_spool_row iid data tbl = tbl[iid := tree_values SPOOL_COLS data]"

definition add_spool ::
  "(string \<Rightarrow> 'f option) \<Rightarrow> spool_form \<Rightarrow> table \<Rightarrow> table \<times> error option" where
  "add_spool pfloat form tbl =
     (case SpoolDialog_ok pfloat form of
        Inl e \<Rightarrow> (tbl, Some e)
      | Inr data \<Rightarrow> (add_spool_row data tbl, None))"

definition edit_spool ::
  "(string \<Rightarrow> 'f option) \<Rightarrow> nat \<Rightarrow> spool_form \<Rightarrow> table \<Rightarrow> table \<times> error option" where
  "edit_spool pfloat iid form tbl =
     (case SpoolDialog_ok pfloat form of
        Inl e \<Rightarrow> (tbl, Some e)
      | Inr data \<Rightarrow> (edit_spool_row iid data tbl, None))"

text \<open>Forms for the examples.\<close>

definition example_job_form :: "string \<Rightarrow> string \<Rightarrow> job_form" where
  "example_job_form status lost =
     \<lparr>date_var = ''2024-01-01'', name_var = ''part'', potential_var = ''100'',
      status_var = status, lost_var = lost, spool_var = []\<rparr>"

definition example_spool_form :: "string \<Rightarrow> string \<Rightarrow> spool_form" where
  "example_spool_form material other_mat =
     \<lparr>id_var = ''SP-20240101-0001'', material_var = material, other_mat_var = other_mat,
      color_var = ''Other'', other_color_var = ''Teal'', size_var = ''1000'', notes_var = [],
      created_var = ''2024-01-01''\<rparr>"

text \<open>The rules of the specification for a spool, in their order.\<close>

definition spool_rules :: "(string \<Rightarrow> 'f option) \<Rightarrow> spool_form \<Rightarrow> error option list" where
  "spool_rules pfloat form =
     [if strip (id_var form) = [] then Some MissingSpoolId else None,
      if strip (size_var form) = [] \<or> pfloat (strip (size_var form)) = None
      then Some InvalidSize else None,
      if strip (material_var form) = ''Other'' \<and> strip (other_mat_var form) = []
      then Some MissingMaterial else None,
      if strip (color_var form) = ''Other'' \<and> strip (other_color_var form) = []
      then Some MissingColor else None]"

section \<open>CSV files\<close>

text \<open>
  A file is modelled by the sequence of records that \<open>csv.reader\<close> yields from it, a
  blank line being the empty record; what \<open>csv.writer\<close> writes, \<open>csv.reader\<close> reads
  back as it was written, so a file just written is the list of the records written.
  A path with no file is \<open>None\<close>.

  \<open>csv.DictReader\<close>: the first record is \<open>fieldnames\<close>; blank records are skipped;
  every other record \<open>r\<close> becomes \<open>dict(zip(fieldnames, r))\<close>, and the field names
  beyond the length of \<open>r\<close> are set to \<open>None\<close> (\<open>restval\<close>). The fields of \<open>r\<close> beyond
  the field names go under the key \<open>None\<close>, which the program never reads and the model
  leaves out. \<open>csv.DictWriter.writerow\<close> writes \<open>rowdict.get(k, "")\<close> for every field
  name, and \<open>None\<close> as the empty string.
\<close>

type_synonym csv_file = "string list list"

definition fieldnames :: "csv_file \<Rightarrow> string list option" where
  "fieldnames f = (case f of [] \<Rightarrow> None | fns # _ \<Rightarrow> Some fns)"

definition dict_row :: "string list \<Rightarrow> string list \<Rightarrow> row" where
  "dict_row fns r =
     (let d = map_of (rev (zip fns (map Str r)))
      in foldl (\<lambda>d key. d(key \<mapsto> PyNone)) d (drop (length r) fns))"

definition DictReader :: "csv_file \<Rightarrow> row list" where
  "DictReader f =
     (case f of
        [] \<Rightarrow> []
      | fns # records \<Rightarrow> map (dict_row fns) (filter (\<lambda>r. r \<noteq> []) records))"

definition csv_field :: "pyval \<Rightarrow> string" where
  "csv_field v = (case v of Str s \<Rightarrow> s | PyNone \<Rightarrow> [])"

definition writerow :: "string list \<Rightarrow> row \<Rightarrow> string list" where
  "writerow fns rowdict = map (\<lambda>k. csv_field (dict_get rowdict k (Str []))) fns"

text \<open>\<open>ensure_csv\<close>, \<open>read_rows\<close> (its loop body is \<open>read_row\<close>) and \<open>write_rows\<close>.
  \<open>read_rows\<close> returns the file as \<open>ensure_csv\<close> leaves it, and the rows.\<close>

definition ensure_csv :: "csv_file option \<Rightarrow> string list \<Rightarrow> csv_file" where
  "ensure_csv p header = (case p of None \<Rightarrow> [header] | Some f \<Rightarrow> f)"

definition read_row :: "string list \<Rightarrow> row \<Rightarrow> row" where
  "read_row header r0 =
     (let r = (if header = JOB_COLS \<and> r0 ''Spool ID'' = None
               then r0(''Spool ID'' \<mapsto> Str []) else r0);
          row = dict_comp header (\<lambda>col. dict_get r col (Str []))
      in if header = SPOOL_COLS \<and> r ''Other Material'' = None
         then row(''Other Material'' \<mapsto> Str []) else row)"

definition read_rows :: "csv_file option \<Rightarrow> string list \<Rightarrow> csv_file \<times> row list" where
  "read_rows p header =
     (let f = ensure_csv p header
      in (f, map (read_row header) (DictReader f)))"

definition write_rows :: "string list \<Rightarrow> row list \<Rightarrow> csv_file" where
  "write_rows header rows =
     header # map (\<lambda>r. writerow header (dict_comp header (\<lambda>c. dict_get r c (Str [])))) rows"

text \<open>
  The migration block of the main program, for the jobs file and for the spools file.
  \<open>migrate_job_row\<close> and \<open>migrate_spool_row\<close> are the bodies of the two loops over
  the rows. Each migration gives the file that it writes, or \<open>None\<close> when it writes
  nothing;
  \<open>run_jobs_migration\<close> and \<open>run_spools_migration\<close> give the file as it is afterwards.
\<close>

definition migrate_job_row :: "row \<Rightarrow> string list" where
  "migrate_job_row r0 =
     (let r = r0(''Spool ID'' \<mapsto> Str [])
      in writerow JOB_COLS (dict_comp JOB_COLS (\<lambda>c. dict_get r c (Str []))))"

definition jobs_migration :: "csv_file option \<Rightarrow> csv_file option" where
  "jobs_migration p =
     (case p of
        None \<Rightarrow> Some [JOB_COLS]
      | Some f \<Rightarrow>
          (let had_spool = (case fieldnames f of
                              None \<Rightarrow> False
                            | Some fns \<Rightarrow> if fns \<noteq> [] then ''Spool ID'' \<in> set fns else False);
               rows = DictReader f
           in if \<not> had_spool then Some (JOB_COLS # map migrate_job_row rows)
              else None))"

definition migrate_spool_row :: "row \<Rightarrow> string list" where
  "migrate_spool_row r0 =
     (let r1 = dict_comp SPOOL_COLS (\<lambda>k. Str []) ++ r0;
          r = (if \<not> truthy (dict_get r1 ''Other Material'' PyNone)
                  \<and> dict_get r1 ''Material'' PyNone \<noteq> Str ''Other''
               then r1(''Other Material'' \<mapsto> Str []) else r1)
      in writerow SPOOL_COLS (dict_comp SPOOL_COLS (\<lambda>c. dict_get r c (Str []))))"

definition spools_migration :: "csv_file option \<Rightarrow> csv_file option" where
  "spools_migration p =
     (case p of
        None \<Rightarrow> Some [SPOOL_COLS]
      | Some f \<Rightarrow>
          (let rows = DictReader f;
               fields = (case fieldnames f of None \<Rightarrow> [] | Some fns \<Rightarrow> fns)
           in if ''Other Material'' \<notin> set fields then
                Some (SPOOL_COLS # map migrate_spool_row rows)
              else None))"

definition run_jobs_migration :: "csv_file option \<Rightarrow> csv_file option" where
  "run_jobs_migration p = (case jobs_migration p of None \<Rightarrow> p | Some f \<Rightarrow> Some f)"

definition run_spools_migration :: "csv_file option \<Rightarrow> csv_file option" where
  "run_spools_migration p = (case spools_migration p of None \<Rightarrow> p | Some f \<Rightarrow> Some f)"

text \<open>
  The words of the specification. The header of a file is its first record. A file has
  a column when its header names it, and lacks it when its header is not blank and does
  not name it. A migrated record has the columns of the schema and no other, the new
  column empty and every other one with the value that the old file gives under the name
  of that column (the empty string where it gives none); \<open>migrated_row\<close> is that record
  as \<open>DictReader\<close> reads it. A reloaded row holds, in the columns of the schema, what a
  saved and reloaded file would hold.
\<close>

definition has_column :: "string \<Rightarrow> csv_file \<Rightarrow> bool" where
  "has_column col f = (case f of [] \<Rightarrow> False | fns # _ \<Rightarrow> col \<in> set fns)"

definition lacks_column :: "string \<Rightarrow> csv_file \<Rightarrow> bool" where
  "lacks_column col f = (case f of [] \<Rightarrow> False | fns # _ \<Rightarrow> fns \<noteq> [] \<and> col \<notin> set fns)"

definition migrated_record :: "string list \<Rightarrow> string \<Rightarrow> row \<Rightarrow> string list" where
  "migrated_record schema new_col r =
     map (\<lambda>c. if c = new_col then [] else csv_field (dict_get r c (Str []))) schema"

definition migrated_row :: "string list \<Rightarrow> string \<Rightarrow> row \<Rightarrow> row" where
  "migrated_row schema new_col r =
     dict_comp schema (\<lambda>c. Str (if c = new_col then [] else csv_field (dict_get r c (Str []))))"

definition reloaded :: "string list \<Rightarrow> row \<Rightarrow> row" where
  "reloaded schema r = dict_comp schema (\<lambda>c. Str (csv_field (dict_get r c (Str []))))"

definition full_rows :: "csv_file \<Rightarrow> bool" where
  "full_rows f =
     (case f of
        [] \<Rightarrow> True
      | fns # records \<Rightarrow> list_all (\<lambda>r. r = [] \<or> length fns \<le> length r) records)"

text \<open>A jobs file whose second data row stops after the name of the job.\<close>

definition short_row_file :: csv_file where
  "short_row_file =
     [JOB_COLS,
      [''2024-01-01'', ''bracket'', ''100'', ''success'', [], []],
      [''2024-01-02'', ''clip'']]"

definition legacy_jobs_file :: csv_file where
  "legacy_jobs_file =
     [[''Date'', ''Name of Job'', ''Grams Potential'', ''Status'', ''Lost (g)''],
      [''2024-01-01'', ''bracket'', ''100'', ''success'', []],
      [],
      [''2024-01-02'', ''clip'', ''50'', ''failed'', ''10'']]"

text \<open>
  A legacy jobs file with a column that the schema does not have, and a jobs file of the
  current schema that starts with a blank line.
\<close>

definition extra_column_file :: csv_file where
  "extra_column_file =
     [[''Date'', ''Name of Job'', ''Grams Potential'', ''Status'', ''Lost (g)'', ''Finish''],
      [''2024-01-01'', ''bracket'', ''100'', ''success'', [], ''glossy'']]"

definition blank_first_line_file :: csv_file where
  "blank_first_line_file =
     [[],
      JOB_COLS,
      [''2024-01-01'', ''bracket'', ''100'', ''success'', [], ''SP-20240101-0001'']]"

definition legacy_spools_file :: csv_file where
  "legacy_spools_file =
     [[''Spool ID'', ''Material'', ''Color'', ''Other Color'', ''Spool Size (g)'', ''Notes'',
       ''Created''],
      [''SP-20240101-0001'', ''Other'', ''Black'', [], ''1000'', [], ''2024-01-01'']]"

text \<open>
  Loading a file, saving the rows and loading again: the rows of the first, the second
  and the third load.
\<close>

definition first_load :: "csv_file option \<Rightarrow> string list \<Rightarrow> row list" where
  "first_load p header = snd (read_rows p header)"

definition second_load :: "csv_file option \<Rightarrow> string list \<Rightarrow> row list" where
  "second_load p header =
     snd (read_rows (Some (write_rows header (first_load p header))) header)"

definition third_load :: "csv_file option \<Rightarrow> string list \<Rightarrow> row list" where
  "third_load p header =
     snd (read_rows (Some (write_rows header (second_load p header))) header)"

section \<open>Facts about the string functions\<close>

declare dec.simps [simp del]

lemma startswith_iff: "startswith s p \<longleftrightarrow> (\<exists>t. s = p @ t)"
  by (induction s p rule: startswith.induct) auto

lemma split_not_Nil: "split sep s \<noteq> []"
  by (induction s) (auto split: list.splits)

lemma split_no_sep: "sep \<notin> set t \<Longrightarrow> split sep t = [t]"
  by (induction t) auto

lemma length_split: "length (split sep s) = Suc (length (filter (\<lambda>c. c = sep) s))"
proof (induction s)
  case Nil
  show ?case by simp
next
  case (Cons c s)
  obtain v vs where v: "split sep s = v # vs"
    using split_not_Nil[of sep s] by (cases "split sep s") auto
  with Cons show ?case by simp
qed

lemma split_tail_Nil: "split sep s = w # ws \<Longrightarrow> ws = [] \<longleftrightarrow> sep \<notin> set s"
proof -
  assume a: "split sep s = w # ws"
  have "length (w # ws) = Suc (length (filter (\<lambda>c. c = sep) s))"
    using length_split[of sep s] a by simp
  then have "ws = [] \<longleftrightarrow> filter (\<lambda>c. c = sep) s = []"
    by (metis length_0_conv old.nat.inject length_Cons)
  also have "\<dots> \<longleftrightarrow> sep \<notin> set s" by (auto simp: filter_empty_conv)
  finally show ?thesis .
qed

lemma last_split_eq: "last (split sep s) = rev (takeWhile (\<lambda>c. c \<noteq> sep) (rev s))"
proof (induction s)
  case Nil
  then show ?case by simp
next
  case (Cons c s)
  obtain w ws where w: "split sep s = w # ws"
    using split_not_Nil[of sep s] by (cases "split sep s") auto
  show ?case
  proof (cases "sep \<in> set s")
    case True
    then have ne: "ws \<noteq> []" using split_tail_Nil[OF w] by simp
    from True have tw: "takeWhile (\<lambda>c. c \<noteq> sep) (rev s @ [c]) = takeWhile (\<lambda>c. c \<noteq> sep) (rev s)"
      by (auto simp: takeWhile_append)
    have "last (split sep (c # s)) = last (split sep s)" using w ne by simp
    then show ?thesis using Cons tw by simp
  next
    case False
    then have s: "split sep s = [s]" by (rule split_no_sep)
    from False have "takeWhile (\<lambda>c. c \<noteq> sep) (rev s) = rev s"
      by (auto simp: takeWhile_eq_all_conv)
    then show ?thesis using s by (simp add: takeWhile_append)
  qed
qed

lemma digit_val_digit_char: "d < 10 \<Longrightarrow> digit_val (digit_char d) = d"
proof -
  assume "d < 10"
  then have "d \<in> {0,1,2,3,4,5,6,7,8,9}" by auto
  then show ?thesis by (auto simp: digit_val_def digit_char_def)
qed

lemma is_decimal_digit_char: "d < 10 \<Longrightarrow> is_decimal_char (digit_char d)"
proof -
  assume "d < 10"
  then have "d \<in> {0,1,2,3,4,5,6,7,8,9}" by auto
  then show ?thesis by (auto simp: is_decimal_char_def digit_char_def)
qed

lemma dec_not_Nil: "dec n \<noteq> []"
  by (subst dec.simps) simp

lemma dec_decimal: "list_all is_decimal_char (dec n)"
  by (induction n rule: dec.induct) (subst dec.simps, simp add: is_decimal_digit_char)

lemma decimal_value_snoc: "decimal_value (s @ [c]) = 10 * decimal_value s + digit_val c"
  by (simp add: decimal_value_def)

lemma decimal_value_dec: "decimal_value (dec n) = n"
proof (induction n rule: dec.induct)
  case (1 n)
  show ?case
  proof (cases "n < 10")
    case True
    then show ?thesis by (subst dec.simps) (simp add: decimal_value_def digit_val_digit_char)
  next
    case False
    then show ?thesis using 1
      by (subst dec.simps) (simp add: decimal_value_snoc digit_val_digit_char)
  qed
qed

lemma decimal_value_zeros: "decimal_value (replicate k (CHR ''0'') @ s) = decimal_value s"
proof -
  have "foldl (\<lambda>n c. 10 * n + digit_val c) 0 (replicate k (CHR ''0'')) = 0"
    by (induction k) (simp_all add: digit_val_def)
  then show ?thesis by (simp add: decimal_value_def)
qed

lemma length_dec: "0 < k \<Longrightarrow> length (dec n) \<le> k \<longleftrightarrow> n < 10 ^ k"
proof (induction n arbitrary: k rule: dec.induct)
  case (1 n)
  show ?case
  proof (cases "n < 10")
    case True
    have "(10::nat) ^ 1 \<le> 10 ^ k" using 1(2) by (intro power_increasing) auto
    with True 1(2) show ?thesis by (subst dec.simps) auto
  next
    case False
    show ?thesis
    proof (cases "k = 1")
      case True
      with False show ?thesis using dec_not_Nil[of "n div 10"]
        by (subst dec.simps) (auto simp: Suc_le_eq)
    next
      case k: False
      then obtain j where j: "k = Suc j" "0 < j" using 1(2) by (cases k) auto
      have "length (dec (n div 10)) \<le> j \<longleftrightarrow> n div 10 < 10 ^ j" using 1(1)[OF False j(2)] .
      moreover have "n div 10 < 10 ^ j \<longleftrightarrow> n < 10 ^ k"
        using j by (simp add: less_mult_imp_div_less div_less_iff_less_mult mult.commute)
      ultimately show ?thesis using False j by (subst dec.simps) simp
    qed
  qed
qed

section \<open>The spool ID generator\<close>

lemma all_decimal_isdigit: "all_decimal s \<Longrightarrow> isdigit s"
  by (auto simp: all_decimal_def isdigit_def isdigit_char_def list_all_iff)

lemma scan_eq:
  "scan prefix ids acc =
     (if \<exists>sid \<in> set ids. unreadable prefix sid then Inl ValueError
      else Inr (acc @ todays_numbers prefix ids))"
proof (induction ids arbitrary: acc)
  case Nil
  show ?case by (simp add: todays_numbers_def)
next
  case (Cons sid rest)
  have t: "last (split (CHR ''-'') sid) = after_last_dash sid"
    by (simp add: last_split_eq after_last_dash_def)
  consider (skip) "\<not> startswith sid prefix \<or> \<not> isdigit (after_last_dash sid)"
    | (num) "startswith sid prefix" "isdigit (after_last_dash sid)" "all_decimal (after_last_dash sid)"
    | (bad) "startswith sid prefix" "isdigit (after_last_dash sid)" "\<not> all_decimal (after_last_dash sid)"
    by blast
  then show ?case
  proof cases
    case skip
    then have "\<not> unreadable prefix sid" "\<not> numbered prefix sid"
      using all_decimal_isdigit[of "after_last_dash sid"]
      by (auto simp: unreadable_def numbered_def)
    with skip show ?thesis using Cons[of acc]
      by (auto simp: t todays_numbers_def)
  next
    case num
    then have "\<not> unreadable prefix sid" "numbered prefix sid"
      by (simp_all add: unreadable_def numbered_def)
    moreover have "py_int (after_last_dash sid) = Inr (decimal_value (after_last_dash sid))"
      using num by (simp add: py_int_def)
    ultimately show ?thesis
      using num Cons[of "acc @ [decimal_value (after_last_dash sid)]"]
      by (simp add: t todays_numbers_def)
  next
    case bad
    then have "unreadable prefix sid" by (simp add: unreadable_def)
    moreover have "py_int (after_last_dash sid) = Inl ValueError"
      using bad by (simp add: py_int_def)
    ultimately show ?thesis using bad by (simp add: t)
  qed
qed

lemma py_max_eq: "py_max nums = Max (set nums)" if "nums \<noteq> []"
proof (cases nums)
  case Nil
  then show ?thesis using that by simp
next
  case (Cons a list)
  then show ?thesis using Max.set_eq_fold[of a list] by simp
qed

lemma format_04d_one: "format_04d (Suc 0) = ''0001''"
  by (simp add: format_04d_def dec.simps digit_char_def eval_nat_numeral)

lemma gen_spool_id_eq:
  "gen_spool_id date ids =
     (if \<exists>sid \<in> set ids. unreadable (prefix_of date) sid then Inl ValueError
      else Inr (spec_spool_id date ids))"
  by (simp add: gen_spool_id_def scan_eq spec_spool_id_def next_suffix_def Let_def py_max_eq
      format_04d_one)

lemma format_04d_decimal: "all_decimal (format_04d n)"
proof -
  have "is_decimal_char (CHR ''0'')" by (simp add: is_decimal_char_def)
  then have "list_all is_decimal_char (replicate k (CHR ''0''))" for k
    by (induction k) simp_all
  then show ?thesis
    using dec_decimal[of n] dec_not_Nil[of n] by (simp add: all_decimal_def format_04d_def)
qed

lemma decimal_value_format: "decimal_value (format_04d n) = n"
  by (simp add: format_04d_def decimal_value_zeros decimal_value_dec)

lemma all_decimal_no_dash: "all_decimal s \<Longrightarrow> CHR ''-'' \<notin> set s"
proof -
  assume a: "all_decimal s"
  have "\<not> is_decimal_char (CHR ''-'')" by (simp add: is_decimal_char_def)
  with a show ?thesis unfolding all_decimal_def list_all_iff by blast
qed

lemma after_last_dash_new:
  "CHR ''-'' \<notin> set sfx \<Longrightarrow> after_last_dash (prefix_of date @ sfx) = sfx"
proof -
  assume a: "CHR ''-'' \<notin> set sfx"
  then have "takeWhile (\<lambda>c. c \<noteq> CHR ''-'') (rev sfx) = rev sfx"
    by (auto simp: takeWhile_eq_all_conv)
  moreover have "rev (prefix_of date @ sfx) = rev sfx @ CHR ''-'' # rev (''SP-'' @ date)"
    by (simp add: prefix_of_def)
  ultimately show ?thesis using a
    by (simp add: after_last_dash_def takeWhile_append del: rev_append)
qed

lemma next_suffix_decimal: "all_decimal (next_suffix prefix ids)"
  using format_04d_decimal[of "Suc 0"]
  by (simp add: next_suffix_def Let_def format_04d_decimal format_04d_one)

lemma next_suffix_value:
  "decimal_value (next_suffix prefix ids) =
     (if todays_numbers prefix ids = [] then 1 else Max (set (todays_numbers prefix ids)) + 1)"
  using decimal_value_format[of "Suc 0"]
  by (simp add: next_suffix_def Let_def decimal_value_format format_04d_one)

lemma spec_spool_id_fresh: "spec_spool_id date ids \<notin> set ids"
proof
  let ?p = "prefix_of date"
  let ?new = "spec_spool_id date ids"
  let ?nums = "todays_numbers ?p ids"
  assume mem: "?new \<in> set ids"
  have nd: "CHR ''-'' \<notin> set (next_suffix ?p ids)"
    by (rule all_decimal_no_dash[OF next_suffix_decimal])
  have tl: "after_last_dash ?new = next_suffix ?p ids"
    unfolding spec_spool_id_def by (rule after_last_dash_new[OF nd])
  have "startswith ?new ?p" by (simp add: startswith_iff spec_spool_id_def)
  then have "numbered ?p ?new"
    by (simp add: numbered_def tl next_suffix_decimal)
  with mem have "decimal_value (after_last_dash ?new) \<in> set ?nums"
    by (auto simp: todays_numbers_def)
  then have in_nums: "decimal_value (next_suffix ?p ids) \<in> set ?nums" by (simp add: tl)
  then have ne: "?nums \<noteq> []" by auto
  then have "Max (set ?nums) + 1 \<in> set ?nums" using in_nums by (simp add: next_suffix_value)
  then have "Max (set ?nums) + 1 \<le> Max (set ?nums)" by (intro Max_ge) auto
  then show False by simp
qed

lemma length_format_04d_small: "n < 10000 \<Longrightarrow> length (format_04d n) = 4"
  using length_dec[of 4 n] by (simp add: format_04d_def)

lemma format_04d_large: "10000 \<le> n \<Longrightarrow> format_04d n = dec n \<and> 4 < length (dec n)"
  using length_dec[of 4 n] by (simp add: format_04d_def)

lemma other_dates_ignored:
  "spec_spool_id date ids = spec_spool_id date (filter (\<lambda>sid. startswith sid (prefix_of date)) ids)"
proof -
  have "filter (numbered p) (filter (\<lambda>sid. startswith sid p) ids) = filter (numbered p) ids" for p
    by (induction ids) (auto simp: numbered_def)
  then show ?thesis by (simp add: spec_spool_id_def next_suffix_def todays_numbers_def)
qed

section \<open>The totals\<close>

lemma passes_included: "passes flt r = included flt r"
  by (simp add: passes_def included_def)

lemma totals_loop_eq:
  "totals_loop pf flt rows a =
     \<lparr>total_potential =
        foldl (+) (total_potential a) (map (potential_of pf) (filter (included flt) rows)),
      total_lost =
        foldl (+) (total_lost a)
          (map (lost_of pf)
             (filter (\<lambda>job. included flt job \<and> status_of job = ''failed'') rows)),
      total_consumed =
        foldl (+) (total_consumed a)
          (map (\<lambda>job. if status_of job = ''success'' then potential_of pf job
                       else lost_of pf job)
             (filter (\<lambda>job. included flt job
                             \<and> (status_of job = ''success'' \<or> status_of job = ''failed''))
                rows))\<rparr>"
proof (induction rows arbitrary: a)
  case Nil
  show ?case by simp
next
  case (Cons r rows)
  show ?case
  proof (cases "included flt r")
    case False
    then show ?thesis using Cons[of a] by (simp add: passes_included)
  next
    case True
    consider (s) "status_of r = ''success''" | (f) "status_of r = ''failed''"
      | (o) "status_of r \<noteq> ''success''" "status_of r \<noteq> ''failed''" by blast
    then show ?thesis
    proof cases
      case s
      then have st: "lower (strip (py_or_empty (dict_get r ''Status'' (Str [])))) = ''success''"
        by (simp add: status_of_def)
      show ?thesis using True s
        by (simp add: passes_included Let_def Cons st potential_of_def lost_of_def)
    next
      case f
      then have st: "lower (strip (py_or_empty (dict_get r ''Status'' (Str [])))) = ''failed''"
        by (simp add: status_of_def)
      show ?thesis using True f
        by (simp add: passes_included Let_def Cons st potential_of_def lost_of_def)
    next
      case o
      then have st: "lower (strip (py_or_empty (dict_get r ''Status'' (Str [])))) \<noteq> ''success''"
        "lower (strip (py_or_empty (dict_get r ''Status'' (Str [])))) \<noteq> ''failed''"
        by (simp_all add: status_of_def)
      show ?thesis using True o
        by (simp add: passes_included Let_def Cons st potential_of_def lost_of_def)
    qed
  qed
qed

lemma spool_size_eq: "spool_size pf flt spools = spec_size pf flt spools"
  by (induction spools) (simp_all add: spec_size_def)

lemma update_totals_fields:
  "total_potential_var (update_totals pf jobs spools flt) = spec_potential pf flt jobs"
  "total_consumed_var (update_totals pf jobs spools flt) = spec_consumed pf flt jobs"
  "total_lost_var (update_totals pf jobs spools flt) = spec_lost pf flt jobs"
  by (simp_all add: update_totals_def Let_def totals_loop_eq spec_potential_def
      spec_consumed_def spec_lost_def sum_left_def)

text \<open>
  Claim C1. For every jobs table and every filter, one pass over the jobs gives the
  three totals: a job is included iff the filter is \<open>(All)\<close> or the job's spool
  reference equals the filter; the total potential is the sum of the parsed potentials
  of the included jobs; the total consumed is the sum, over the included jobs whose
  status is \<open>success\<close> or \<open>failed\<close>, of the potential (success) or of the lost grams
  (failed); the total lost is the sum of the lost grams of the included failed jobs.
  Jobs of any other status, \<open>init\<close> and \<open>pending\<close> among them, add to the potential
  only. The status is the field trimmed and in lower case, as the code compares it, and
  the sums add from left to right as the loop does.
\<close>

theorem update_totals_sums:
  "(passes flt job \<longleftrightarrow> included flt job)
   \<and> total_potential_var (update_totals pf jobs spools flt) = spec_potential pf flt jobs
   \<and> total_consumed_var (update_totals pf jobs spools flt) = spec_consumed pf flt jobs
   \<and> total_lost_var (update_totals pf jobs spools flt) = spec_lost pf flt jobs"
  by (simp add: update_totals_def Let_def totals_loop_eq spec_potential_def spec_consumed_def
      spec_lost_def sum_left_def passes_included)

text \<open>
  Claim C2. With the filter \<open>(All)\<close> no remaining value is computed. With any other
  filter the remaining value is \<open>max(size - total_consumed, 0)\<close>, where \<open>size\<close> is the
  parsed size of the first spool whose id equals the filter, or \<open>0\<close> when there is
  none; it is never below zero (all that is used of the comparison is that \<open>0 < 0\<close> is
  false).
\<close>

theorem update_totals_remaining:
  fixes pf :: "string \<Rightarrow> ('f::{zero,plus,minus,ord}) option"
  shows "spool_remaining_var (update_totals pf jobs spools ''(All)'') = None
   \<and> (flt \<noteq> ''(All)'' \<longrightarrow>
        spool_remaining_var (update_totals pf jobs spools flt)
          = Some (pymax (spec_size pf flt spools - spec_consumed pf flt jobs) 0)
        \<and> (\<not> (0::'f) < 0 \<longrightarrow>
             \<not> pymax (spec_size pf flt spools - spec_consumed pf flt jobs) 0 < 0))"
  by (simp add: update_totals_def Let_def totals_loop_eq spool_size_eq spec_consumed_def
      sum_left_def pymax_def)

lemma pymax_max: "pymax a b = max a (b::'a::linorder)"
  by (auto simp: pymax_def max_def)

lemma example_job_fields:
  "dict_get (example_job potential status lost sid) ''Grams Potential'' d = Str potential"
  "dict_get (example_job potential status lost sid) ''Status'' d = Str status"
  "dict_get (example_job potential status lost sid) ''Lost (g)'' d = Str lost"
  "dict_get (example_job potential status lost sid) ''Spool ID'' d = Str sid"
  by (simp_all add: example_job_def dict_get_def)

lemma example_spool_fields:
  "dict_get (example_spool sid grams) ''Spool ID'' d = Str sid"
  "dict_get (example_spool sid grams) ''Spool Size (g)'' d = Str grams"
  by (simp_all add: example_spool_def dict_get_def)

lemma lower_strip_statuses:
  "lower (strip ''init'') = ''init''"
  "lower (strip ''success'') = ''success''"
  "lower (strip ''failed'') = ''failed''"
  "lower (strip ''pending'') = ''pending''"
  by (simp_all add: lower_def strip_def isspace_char_def lower_char_def upper_chars_def
      lower_chars_def)

lemma status_of_example_job: "status_of (example_job potential status lost sid) = lower (strip status)"
  by (simp add: status_of_def example_job_fields py_or_empty_def)

lemmas eval_totals = example_job_fields example_spool_fields status_of_example_job lower_strip_statuses
  safe_float_def potential_of_def lost_of_def included_def spec_potential_def spec_consumed_def
  spec_lost_def spec_size_def sum_left_def pymax_def

lemma totals_example:
  "total_potential_var (update_totals example_float
      [example_job ''100'' ''success'' [] [], example_job ''50'' ''failed'' ''10'' []] [] ''(All)'') = 150
   \<and> total_consumed_var (update_totals example_float
      [example_job ''100'' ''success'' [] [], example_job ''50'' ''failed'' ''10'' []] [] ''(All)'') = 110
   \<and> total_lost_var (update_totals example_float
      [example_job ''100'' ''success'' [] [], example_job ''50'' ''failed'' ''10'' []] [] ''(All)'') = 10"
  by (simp add: update_totals_fields eval_totals example_float_def)

theorem update_totals_remaining_witness:
  "''A'' \<noteq> ''(All)'' \<and> \<not> (0::real) < 0
   \<and> spool_remaining_var (update_totals example_float
        [example_job ''100'' ''success'' [] ''A'', example_job ''50'' ''failed'' ''10'' ''A'',
         example_job ''50'' ''success'' [] ''B'']
        [example_spool ''B'' ''50'', example_spool ''A'' ''1000'', example_spool ''A'' ''10''] ''A'') = Some 890
   \<and> spool_remaining_var (update_totals example_float
        [example_job ''1200'' ''success'' [] ''A''] [example_spool ''A'' ''1000''] ''A'') = Some 0
   \<and> spool_remaining_var (update_totals example_float
        [example_job ''1200'' ''success'' [] ''A''] [example_spool ''A'' ''1000''] ''(All)'') = None"
  using update_totals_remaining[of example_float "[example_job ''100'' ''success'' [] ''A'', example_job ''50'' ''failed'' ''10'' ''A'',
         example_job ''50'' ''success'' [] ''B'']" "[example_spool ''B'' ''50'', example_spool ''A'' ''1000'', example_spool ''A'' ''10'']" "''A''"]
    update_totals_remaining[of example_float "[example_job ''1200'' ''success'' [] ''A'']" "[example_spool ''A'' ''1000'']" "''A''"]
  by (simp add: eval_totals example_float_def)

text \<open>
  Claim C10. The totals are neither checked nor clamped: a string that \<open>float\<close> reads
  is used as it is. Whenever \<open>float\<close> reads \<open>-5\<close> as a number \<open>v\<close> below zero (with
  \<open>0 + v = v\<close>), a single job with that potential makes the total potential negative;
  with status \<open>success\<close> it makes the total consumed negative; and a failed job with
  those lost grams makes the total lost negative.
\<close>

theorem negative_totals:
  fixes pf :: "string \<Rightarrow> ('f::{zero,plus,minus,ord}) option"
  assumes "pf ''-5'' = Some v" and "0 + v = v" and "v < 0"
  shows "safe_float pf (Str ''-5'') = v
    \<and> total_potential_var (update_totals pf [example_job ''-5'' ''pending'' [] []] [] ''(All)'') < 0
    \<and> total_consumed_var (update_totals pf [example_job ''-5'' ''success'' [] []] [] ''(All)'') < 0
    \<and> total_lost_var (update_totals pf [example_job [] ''failed'' ''-5'' []] [] ''(All)'') < 0"
  using assms by (simp add: update_totals_fields eval_totals)

theorem negative_totals_witness:
  "example_float ''-5'' = Some (-5) \<and> 0 + (-5::real) = -5 \<and> (-5::real) < 0
    \<and> total_potential_var (update_totals example_float [example_job ''-5'' ''pending'' [] []] [] ''(All)'') < 0
    \<and> total_consumed_var (update_totals example_float [example_job ''-5'' ''success'' [] []] [] ''(All)'') < 0
    \<and> total_lost_var (update_totals example_float [example_job [] ''failed'' ''-5'' []] [] ''(All)'') < 0"
proof -
  have h: "example_float ''-5'' = Some (-5)" by (simp add: example_float_def)
  show ?thesis using negative_totals[of example_float "-5", OF h] h by simp
qed

section \<open>The dialogs: validation and commit\<close>

lemma JobDialog_ok_rules:
  "JobDialog_ok pf form =
     (case first_failure (job_rules pf form) of
        Some e \<Rightarrow> Inl e
      | None \<Rightarrow> Inr (job_data form))"
  by (simp add: JobDialog_ok_def job_rules_def rule_required_def rule_potential_def
      rule_status_def rule_lost_def is_float_def Let_def)

lemma job_data_lost:
  "dict_get (job_data form) ''Lost (g)'' d =
     Str (if lower (strip (status_var form)) = ''failed'' then strip (lost_var form) else [])"
  by (simp add: job_data_def dict_get_def Let_def)

lemma tree_values_job_lost:
  "tree_values JOB_COLS data ! 4 = dict_get data ''Lost (g)'' (Str [])"
  by (simp add: tree_values_def JOB_COLS_def)

text \<open>
  Claim C5. The validation of a job applies its rules in the order of the specification
  and the first failure decides: date and name are required; the potential, when not
  empty, must be a number; the status must be one of the four; the lost grams must be
  there and be a number when the status is \<open>failed\<close>, and be a number or empty
  otherwise. When a rule fails the record is not committed: adding and editing leave the
  jobs table as it was. When none fails the record is committed, with the lost grams as
  typed (trimmed, like every field) when the status is \<open>failed\<close> and empty otherwise.
\<close>

theorem job_validation:
  "JobDialog_ok pf form =
     (case first_failure (job_rules pf form) of
        Some e \<Rightarrow> Inl e
      | None \<Rightarrow> Inr (job_data form))
   \<and> (\<forall>e. JobDialog_ok pf form = Inl e \<longrightarrow>
          add_job pf form tbl = (tbl, Some e) \<and> edit_job pf iid form tbl = (tbl, Some e))
   \<and> (\<forall>data. JobDialog_ok pf form = Inr data \<longrightarrow>
          add_job pf form tbl = (tbl @ [tree_values JOB_COLS data], None)
          \<and> edit_job pf iid form tbl = (tbl[iid := tree_values JOB_COLS data], None)
          \<and> tree_values JOB_COLS data ! 4 =
              Str (if lower (strip (status_var form)) = ''failed''
                   then strip (lost_var form) else []))"
proof (intro conjI allI impI)
  show "JobDialog_ok pf form =
     (case first_failure (job_rules pf form) of Some e \<Rightarrow> Inl e | None \<Rightarrow> Inr (job_data form))"
    by (rule JobDialog_ok_rules)
next
  fix e assume "JobDialog_ok pf form = Inl e"
  then show "add_job pf form tbl = (tbl, Some e)" "edit_job pf iid form tbl = (tbl, Some e)"
    by (simp_all add: add_job_def edit_job_def)
next
  fix data assume ok: "JobDialog_ok pf form = Inr data"
  then show "add_job pf form tbl = (tbl @ [tree_values JOB_COLS data], None)"
    "edit_job pf iid form tbl = (tbl[iid := tree_values JOB_COLS data], None)"
    by (simp_all add: add_job_def edit_job_def add_job_row_def edit_job_row_def)
  from ok have "data = job_data form"
    by (cases "first_failure (job_rules pf form)") (simp_all add: JobDialog_ok_rules)
  then show "tree_values JOB_COLS data ! 4 =
      Str (if lower (strip (status_var form)) = ''failed'' then strip (lost_var form) else [])"
    by (simp add: tree_values_job_lost job_data_lost)
qed

lemma strip_plain:
  "strip ''2024-01-01'' = ''2024-01-01''" "strip ''part'' = ''part''" "strip ''100'' = ''100''"
  "strip [] = []" "strip ''5'' = ''5''" "strip ''failed'' = ''failed''"
  "strip ''success'' = ''success''" "strip ''Other'' = ''Other''" "strip ''PLA'' = ''PLA''"
  "strip ''Teal'' = ''Teal''" "strip ''1000'' = ''1000''" "strip ''Wood fill'' = ''Wood fill''"
  "strip ''SP-20240101-0001'' = ''SP-20240101-0001''"
  by (simp_all add: strip_def isspace_char_def)

lemma lower_plain: "lower ''failed'' = ''failed''" "lower ''success'' = ''success''"
  by (simp_all add: lower_def lower_char_def upper_chars_def lower_chars_def)

lemma example_float_values:
  "example_float ''100'' = Some 100" "example_float ''5'' = Some 5"
  "example_float ''1000'' = Some 1000" "example_float [] = None"
  by (simp_all add: example_float_def)

lemma example_job_form_ok:
  "JobDialog_ok example_float (example_job_form ''failed'' []) = Inl MissingLost"
  "JobDialog_ok example_float (example_job_form ''failed'' ''5'')
     = Inr (job_data (example_job_form ''failed'' ''5''))"
  "JobDialog_ok example_float (example_job_form ''success'' ''5'')
     = Inr (job_data (example_job_form ''success'' ''5''))"
  by (simp_all add: JobDialog_ok_def example_job_form_def strip_plain lower_plain
      example_float_values is_float_def STATUSES_def)

theorem job_validation_witness:
  "add_job example_float (example_job_form ''failed'' []) [] = ([], Some MissingLost)
   \<and> edit_job example_float 0 (example_job_form ''failed'' []) [[Str ''x'']]
        = ([[Str ''x'']], Some MissingLost)
   \<and> add_job example_float (example_job_form ''failed'' ''5'') []
        = ([tree_values JOB_COLS (job_data (example_job_form ''failed'' ''5''))], None)
   \<and> tree_values JOB_COLS (job_data (example_job_form ''failed'' ''5'')) ! 4 = Str ''5''
   \<and> tree_values JOB_COLS (job_data (example_job_form ''success'' ''5'')) ! 4 = Str []"
  using job_validation[of example_float "example_job_form ''failed'' []" "[]" 0]
    job_validation[of example_float "example_job_form ''failed'' []" "[[Str ''x'']]" 0]
    job_validation[of example_float "example_job_form ''failed'' ''5''" "[]" 0]
    job_validation[of example_float "example_job_form ''success'' ''5''" "[]" 0]
  by (simp add: example_job_form_ok) (simp add: example_job_form_def strip_plain lower_plain)

lemma SpoolDialog_ok_rules:
  "SpoolDialog_ok pf form =
     (case first_failure (spool_rules pf form) of
        Some e \<Rightarrow> Inl e
      | None \<Rightarrow> Inr (spool_data form))"
  by (simp add: SpoolDialog_ok_def spool_rules_def is_float_def Let_def)

lemma spool_data_other:
  "dict_get (spool_data form) ''Other Material'' d =
     Str (if strip (material_var form) = ''Other'' then strip (other_mat_var form) else [])"
  "dict_get (spool_data form) ''Other Color'' d =
     Str (if strip (color_var form) = ''Other'' then strip (other_color_var form) else [])"
  "dict_get (spool_data form) ''Material'' d = Str (strip (material_var form))"
  "dict_get (spool_data form) ''Color'' d = Str (strip (color_var form))"
  by (simp_all add: spool_data_def dict_get_def Let_def)

lemma tree_values_spool:
  "tree_values SPOOL_COLS data ! 1 = dict_get data ''Material'' (Str [])"
  "tree_values SPOOL_COLS data ! 2 = dict_get data ''Other Material'' (Str [])"
  "tree_values SPOOL_COLS data ! 3 = dict_get data ''Color'' (Str [])"
  "tree_values SPOOL_COLS data ! 4 = dict_get data ''Other Color'' (Str [])"
  by (simp_all add: tree_values_def SPOOL_COLS_def)

text \<open>
  Claim C6. A spool whose material is \<open>Other\<close> with no other-material text is
  rejected and the table is left as it was, and so is one whose color is \<open>Other\<close>
  with no other-color text. An accepted spool is stored with the other-material text as
  typed (trimmed) when the material is \<open>Other\<close> and with the empty string otherwise,
  and with the other-color text as typed when the color is \<open>Other\<close> and the empty
  string otherwise.
\<close>

theorem spool_validation:
  "(strip (material_var form) = ''Other'' \<and> strip (other_mat_var form) = [] \<longrightarrow>
      (\<exists>e. SpoolDialog_ok pf form = Inl e \<and> add_spool pf form tbl = (tbl, Some e)
            \<and> edit_spool pf iid form tbl = (tbl, Some e)))
   \<and> (strip (color_var form) = ''Other'' \<and> strip (other_color_var form) = [] \<longrightarrow>
      (\<exists>e. SpoolDialog_ok pf form = Inl e \<and> add_spool pf form tbl = (tbl, Some e)
            \<and> edit_spool pf iid form tbl = (tbl, Some e)))
   \<and> (\<forall>data. SpoolDialog_ok pf form = Inr data \<longrightarrow>
          add_spool pf form tbl = (tbl @ [tree_values SPOOL_COLS data], None)
          \<and> edit_spool pf iid form tbl = (tbl[iid := tree_values SPOOL_COLS data], None)
          \<and> tree_values SPOOL_COLS data ! 1 = Str (strip (material_var form))
          \<and> tree_values SPOOL_COLS data ! 2 =
              Str (if strip (material_var form) = ''Other''
                   then strip (other_mat_var form) else [])
          \<and> tree_values SPOOL_COLS data ! 3 = Str (strip (color_var form))
          \<and> tree_values SPOOL_COLS data ! 4 =
              Str (if strip (color_var form) = ''Other''
                   then strip (other_color_var form) else []))"
proof (intro conjI allI impI)
  assume "strip (material_var form) = ''Other'' \<and> strip (other_mat_var form) = []"
  then have "\<exists>e. SpoolDialog_ok pf form = Inl e"
    by (simp add: SpoolDialog_ok_def Let_def)
  then show "\<exists>e. SpoolDialog_ok pf form = Inl e \<and> add_spool pf form tbl = (tbl, Some e)
            \<and> edit_spool pf iid form tbl = (tbl, Some e)"
    by (auto simp: add_spool_def edit_spool_def)
next
  assume "strip (color_var form) = ''Other'' \<and> strip (other_color_var form) = []"
  then have "\<exists>e. SpoolDialog_ok pf form = Inl e"
    by (simp add: SpoolDialog_ok_def Let_def)
  then show "\<exists>e. SpoolDialog_ok pf form = Inl e \<and> add_spool pf form tbl = (tbl, Some e)
            \<and> edit_spool pf iid form tbl = (tbl, Some e)"
    by (auto simp: add_spool_def edit_spool_def)
next
  fix data assume ok: "SpoolDialog_ok pf form = Inr data"
  then show "add_spool pf form tbl = (tbl @ [tree_values SPOOL_COLS data], None)"
    "edit_spool pf iid form tbl = (tbl[iid := tree_values SPOOL_COLS data], None)"
    by (simp_all add: add_spool_def edit_spool_def add_spool_row_def edit_spool_row_def)
  from ok have d: "data = spool_data form"
    by (cases "first_failure (spool_rules pf form)") (simp_all add: SpoolDialog_ok_rules)
  show "tree_values SPOOL_COLS data ! 1 = Str (strip (material_var form))"
    "tree_values SPOOL_COLS data ! 2 =
      Str (if strip (material_var form) = ''Other'' then strip (other_mat_var form) else [])"
    "tree_values SPOOL_COLS data ! 3 = Str (strip (color_var form))"
    "tree_values SPOOL_COLS data ! 4 =
      Str (if strip (color_var form) = ''Other'' then strip (other_color_var form) else [])"
    by (simp_all only: d tree_values_spool spool_data_other)
qed

lemma example_spool_form_ok:
  "SpoolDialog_ok example_float (example_spool_form ''Other'' ''Wood fill'')
     = Inr (spool_data (example_spool_form ''Other'' ''Wood fill''))"
  "SpoolDialog_ok example_float (example_spool_form ''PLA'' ''Wood fill'')
     = Inr (spool_data (example_spool_form ''PLA'' ''Wood fill''))"
  by (simp_all add: SpoolDialog_ok_def example_spool_form_def strip_plain
      example_float_values is_float_def)

theorem spool_validation_witness:
  "strip (material_var (example_spool_form ''Other'' [])) = ''Other''
   \<and> strip (other_mat_var (example_spool_form ''Other'' [])) = []
   \<and> (\<exists>e. SpoolDialog_ok example_float (example_spool_form ''Other'' []) = Inl e
          \<and> add_spool example_float (example_spool_form ''Other'' []) [] = ([], Some e))
   \<and> tree_values SPOOL_COLS (spool_data (example_spool_form ''Other'' ''Wood fill'')) ! 1
        = Str ''Other''
   \<and> tree_values SPOOL_COLS (spool_data (example_spool_form ''Other'' ''Wood fill'')) ! 2
        = Str ''Wood fill''
   \<and> tree_values SPOOL_COLS (spool_data (example_spool_form ''PLA'' ''Wood fill'')) ! 2
        = Str []
   \<and> tree_values SPOOL_COLS (spool_data (example_spool_form ''PLA'' ''Wood fill'')) ! 4
        = Str ''Teal''"
proof -
  let ?f0 = "example_spool_form ''Other'' []"
  let ?f1 = "example_spool_form ''Other'' ''Wood fill''"
  let ?f2 = "example_spool_form ''PLA'' ''Wood fill''"
  have m: "strip (material_var ?f0) = ''Other'' \<and> strip (other_mat_var ?f0) = []"
    by (simp add: example_spool_form_def strip_plain)
  have r0: "\<exists>e. SpoolDialog_ok example_float ?f0 = Inl e
          \<and> add_spool example_float ?f0 [] = ([], Some e)"
    using spool_validation[of ?f0 example_float "[]" 0] m by blast
  have r1: "tree_values SPOOL_COLS (spool_data ?f1) ! 1 = Str (strip (material_var ?f1))
      \<and> tree_values SPOOL_COLS (spool_data ?f1) ! 2 =
          Str (if strip (material_var ?f1) = ''Other'' then strip (other_mat_var ?f1) else [])"
    using spool_validation[of ?f1 example_float "[]" 0] example_spool_form_ok(1) by blast
  have r2: "tree_values SPOOL_COLS (spool_data ?f2) ! 2 =
          Str (if strip (material_var ?f2) = ''Other'' then strip (other_mat_var ?f2) else [])
      \<and> tree_values SPOOL_COLS (spool_data ?f2) ! 4 =
          Str (if strip (color_var ?f2) = ''Other'' then strip (other_color_var ?f2) else [])"
    using spool_validation[of ?f2 example_float "[]" 0] example_spool_form_ok(2) by blast
  have e1: "strip (material_var ?f1) = ''Other''" "strip (other_mat_var ?f1) = ''Wood fill''"
    "strip (material_var ?f2) = ''PLA''" "strip (color_var ?f2) = ''Other''"
    "strip (other_color_var ?f2) = ''Teal''"
    by (simp_all add: example_spool_form_def strip_plain)
  show ?thesis using m r0 r1 r2 by (simp add: e1)
qed

section \<open>CSV files: migration and reloading\<close>

lemma dict_comp_apply: "dict_comp keys f k = (if k \<in> set keys then Some (f k) else None)"
  by (induction keys) (auto simp: dict_comp_def)

lemma dict_comp_cong: "(\<And>k. k \<in> set keys \<Longrightarrow> f k = g k) \<Longrightarrow> dict_comp keys f = dict_comp keys g"
  by (rule ext) (simp add: dict_comp_apply)

lemma dict_get_comp: "k \<in> set keys \<Longrightarrow> dict_get (dict_comp keys f) k d = f k"
  by (simp add: dict_get_def dict_comp_apply)

lemma zip_map_same: "zip xs (map f xs) = map (\<lambda>x. (x, f x)) xs"
  by (induction xs) simp_all

lemma dict_row_full: "dict_row fns (map g fns) = dict_comp fns (\<lambda>c. Str (g c))"
proof -
  have "map_of (rev (zip fns (map Str (map g fns)))) = dict_comp (rev fns) (\<lambda>c. Str (g c))"
    using zip_map_same[of fns "\<lambda>c. Str (g c)"] by (simp add: dict_comp_def rev_map comp_def)
  also have "\<dots> = dict_comp fns (\<lambda>c. Str (g c))"
    by (rule ext) (simp add: dict_comp_apply)
  finally show ?thesis by (simp add: dict_row_def)
qed

lemma DictReader_written:
  "fns \<noteq> [] \<Longrightarrow>
   DictReader (fns # map (\<lambda>r. map (g r) fns) rows) = map (\<lambda>r. dict_comp fns (\<lambda>c. Str (g r c))) rows"
proof -
  assume ne: "fns \<noteq> []"
  then have "filter (\<lambda>r. r \<noteq> []) (map (\<lambda>r. map (g r) fns) rows) = map (\<lambda>r. map (g r) fns) rows"
    by (induction rows) simp_all
  then show ?thesis by (simp add: DictReader_def dict_row_full comp_def)
qed

lemma foldl_upd_None: "foldl (\<lambda>d key. d(key \<mapsto> v)) d ks k = (if k \<in> set ks then Some v else d k)"
  by (induction ks arbitrary: d) auto

lemma dict_row_dom: "k \<notin> set fns \<Longrightarrow> dict_row fns r k = None"
proof -
  assume a: "k \<notin> set fns"
  then have "k \<notin> set (drop (length r) fns)" by (meson in_set_dropD)
  moreover have "map_of (rev (zip fns (map Str r))) k = None"
    using a by (metis (no_types, lifting) map_of_eq_None_iff image_iff set_rev set_zip_leftD prod.collapse)
  ultimately show ?thesis by (simp add: dict_row_def foldl_upd_None)
qed

lemma DictReader_no_column:
  "\<not> has_column col f \<Longrightarrow> r \<in> set (DictReader f) \<Longrightarrow> r col = None"
  by (cases f) (auto simp: has_column_def DictReader_def dict_row_dom)

lemma read_row_eq: "read_row header r = dict_comp header (\<lambda>col. dict_get r col (Str []))"
proof -
  have 1: "dict_get (r(''Spool ID'' \<mapsto> Str [])) col (Str []) = dict_get r col (Str [])"
    if "r ''Spool ID'' = None" for col
    using that by (simp add: dict_get_def)
  have 2: "(dict_comp SPOOL_COLS g)(''Other Material'' \<mapsto> Str []) = dict_comp SPOOL_COLS g"
    if "g ''Other Material'' = Str []" for g
    using that by (intro ext) (simp add: dict_comp_apply SPOOL_COLS_def)
  have 3: "JOB_COLS \<noteq> SPOOL_COLS" by (simp add: JOB_COLS_def SPOOL_COLS_def)
  show ?thesis
  proof (cases "header = JOB_COLS")
    case True
    then show ?thesis using 3 by (simp add: read_row_def Let_def 1)
  next
    case False
    then show ?thesis by (auto simp: read_row_def Let_def 2 dict_get_def)
  qed
qed

lemma JOB_COLS_ne: "JOB_COLS \<noteq> []" by (simp add: JOB_COLS_def)
lemma SPOOL_COLS_ne: "SPOOL_COLS \<noteq> []" by (simp add: SPOOL_COLS_def)

lemma writerow_comp:
  "writerow fns (dict_comp fns g) = map (\<lambda>c. csv_field (g c)) fns"
  by (simp add: writerow_def dict_get_comp)

lemma jobs_migration_has:
  "has_column ''Spool ID'' f \<Longrightarrow> jobs_migration (Some f) = None"
  by (cases f) (auto simp: has_column_def jobs_migration_def fieldnames_def Let_def)

lemma spools_migration_has:
  "has_column ''Other Material'' f \<Longrightarrow> spools_migration (Some f) = None"
  by (cases f) (auto simp: has_column_def spools_migration_def fieldnames_def Let_def)

lemma migrate_job_row_eq:
  "migrate_job_row r
     = map (\<lambda>c. if c = ''Spool ID'' then [] else csv_field (dict_get r c (Str []))) JOB_COLS"
  by (simp add: migrate_job_row_def writerow_comp dict_get_def csv_field_def)

lemma jobs_migration_writes:
  "\<not> has_column ''Spool ID'' f \<Longrightarrow>
   jobs_migration (Some f) =
     Some (JOB_COLS #
           map (\<lambda>r. map (\<lambda>c. if c = ''Spool ID'' then [] else csv_field (dict_get r c (Str [])))
                      JOB_COLS)
             (DictReader f))"
proof -
  assume a: "\<not> has_column ''Spool ID'' f"
  then have "\<not> (case fieldnames f of None \<Rightarrow> False
      | Some fns \<Rightarrow> if fns \<noteq> [] then ''Spool ID'' \<in> set fns else False)"
    by (cases f) (auto simp: has_column_def fieldnames_def)
  then show ?thesis by (simp add: jobs_migration_def Let_def migrate_job_row_eq)
qed

lemma migrate_spool_row_eq:
  assumes r0: "r0 ''Other Material'' = None"
  shows "migrate_spool_row r0
     = map (\<lambda>c. if c = ''Other Material'' then [] else csv_field (dict_get r0 c (Str [])))
         SPOOL_COLS"
proof -
  let ?r1 = "dict_comp SPOOL_COLS (\<lambda>k. Str []) ++ r0"
  let ?r = "if \<not> truthy (dict_get ?r1 ''Other Material'' PyNone)
                      \<and> dict_get ?r1 ''Material'' PyNone \<noteq> Str ''Other''
                   then ?r1(''Other Material'' \<mapsto> Str []) else ?r1"
  have om: "?r1 ''Other Material'' = Some (Str [])"
    using r0 by (simp add: map_add_def dict_comp_apply SPOOL_COLS_def)
  have other: "dict_get ?r1 c (Str []) = dict_get r0 c (Str [])" for c
    by (simp add: dict_get_def map_add_def dict_comp_apply split: option.splits)
  have r: "dict_get ?r c (Str [])
        = (if c = ''Other Material'' then Str [] else dict_get r0 c (Str []))" for c
  proof (cases "\<not> truthy (dict_get ?r1 ''Other Material'' PyNone)
                      \<and> dict_get ?r1 ''Material'' PyNone \<noteq> Str ''Other''")
    case True
    then have "?r = ?r1(''Other Material'' \<mapsto> Str [])" by simp
    then show ?thesis using other[of c] by (simp add: dict_get_def)
  next
    case False
    then have "?r = ?r1" by auto
    then show ?thesis using other[of c] om r0 by (simp add: dict_get_def)
  qed
  have "migrate_spool_row r0 = writerow SPOOL_COLS (dict_comp SPOOL_COLS (\<lambda>c. dict_get ?r c (Str [])))"
    unfolding migrate_spool_row_def Let_def ..
  also have "\<dots> = map (\<lambda>c. csv_field (dict_get ?r c (Str []))) SPOOL_COLS"
    by (rule writerow_comp)
  also have "\<dots> = map (\<lambda>c. if c = ''Other Material'' then []
                             else csv_field (dict_get r0 c (Str []))) SPOOL_COLS"
    by (rule map_cong[OF refl]) (simp add: r csv_field_def)
  finally show ?thesis .
qed

lemma spools_migration_writes:
  "\<not> has_column ''Other Material'' f \<Longrightarrow>
   spools_migration (Some f) =
     Some (SPOOL_COLS #
           map (\<lambda>r. map (\<lambda>c. if c = ''Other Material'' then []
                              else csv_field (dict_get r c (Str []))) SPOOL_COLS)
             (DictReader f))"
proof -
  assume a: "\<not> has_column ''Other Material'' f"
  then have f: "''Other Material'' \<notin> set (case fieldnames f of None \<Rightarrow> [] | Some fns \<Rightarrow> fns)"
    by (cases f) (auto simp: has_column_def fieldnames_def)
  have m: "map migrate_spool_row (DictReader f)
      = map (\<lambda>r0. map (\<lambda>c. if c = ''Other Material'' then []
                              else csv_field (dict_get r0 c (Str []))) SPOOL_COLS)
          (DictReader f)"
    by (rule map_cong[OF refl]) (rule migrate_spool_row_eq, rule DictReader_no_column[OF a])
  show ?thesis using f by (simp add: spools_migration_def Let_def m)
qed

lemma has_column_written: "col \<in> set fns \<Longrightarrow> has_column col (fns # records)"
  by (simp add: has_column_def)

lemma jobs_migration_twice: "jobs_migration (run_jobs_migration p) = None"
proof (cases p)
  case None
  then show ?thesis
    by (simp add: run_jobs_migration_def jobs_migration_def fieldnames_def JOB_COLS_def)
next
  case (Some f)
  show ?thesis
  proof (cases "has_column ''Spool ID'' f")
    case True
    then show ?thesis using Some by (simp add: run_jobs_migration_def jobs_migration_has)
  next
    case False
    have "has_column ''Spool ID'' (JOB_COLS # records)" for records
      by (rule has_column_written) (simp add: JOB_COLS_def)
    then show ?thesis using Some False
      by (simp add: run_jobs_migration_def jobs_migration_writes jobs_migration_has)
  qed
qed

lemma spools_migration_twice: "spools_migration (run_spools_migration p) = None"
proof (cases p)
  case None
  then show ?thesis
    by (simp add: run_spools_migration_def spools_migration_def fieldnames_def SPOOL_COLS_def)
next
  case (Some f)
  show ?thesis
  proof (cases "has_column ''Other Material'' f")
    case True
    then show ?thesis using Some by (simp add: run_spools_migration_def spools_migration_has)
  next
    case False
    have "has_column ''Other Material'' (SPOOL_COLS # records)" for records
      by (rule has_column_written) (simp add: SPOOL_COLS_def)
    then show ?thesis using Some False
      by (simp add: run_spools_migration_def spools_migration_writes spools_migration_has)
  qed
qed

lemma DictReader_migrated:
  "fns \<noteq> [] \<Longrightarrow>
   DictReader (fns # map (\<lambda>r. map (\<lambda>c. if c = col then [] else csv_field (dict_get r c (Str [])))
                                 fns) rows)
     = map (migrated_row fns col) rows"
  using DictReader_written[of fns "\<lambda>r c. if c = col then [] else csv_field (dict_get r c (Str []))" rows]
  by (simp add: migrated_row_def)

lemma first_load_eq:
  "first_load p header =
     map (\<lambda>r. dict_comp header (\<lambda>c. dict_get r c (Str []))) (DictReader (ensure_csv p header))"
  by (simp add: first_load_def read_rows_def Let_def read_row_eq)

lemma DictReader_write_rows:
  "header \<noteq> [] \<Longrightarrow> DictReader (write_rows header rows) = map (reloaded header) rows"
proof -
  assume ne: "header \<noteq> []"
  have "write_rows header rows
      = header # map (\<lambda>r. map (\<lambda>c. csv_field (dict_get r c (Str []))) header) rows"
    by (simp add: write_rows_def writerow_comp)
  then show ?thesis
    using DictReader_written[OF ne, of "\<lambda>r c. csv_field (dict_get r c (Str []))" rows]
    by (simp add: reloaded_def)
qed

lemma read_row_reloaded: "read_row header (reloaded header r) = reloaded header r"
  unfolding read_row_eq reloaded_def
  by (rule dict_comp_cong) (simp add: dict_get_comp)

lemma reloaded_idem: "reloaded header (reloaded header r) = reloaded header r"
  unfolding reloaded_def
  by (rule dict_comp_cong) (simp add: dict_get_comp csv_field_def)

lemma load_after_save:
  "header \<noteq> [] \<Longrightarrow>
   snd (read_rows (Some (write_rows header rows)) header) = map (reloaded header) rows"
  by (simp add: read_rows_def Let_def ensure_csv_def DictReader_write_rows read_row_reloaded)

lemma second_load_eq:
  "header \<noteq> [] \<Longrightarrow> second_load p header = map (reloaded header) (first_load p header)"
  by (simp add: second_load_def load_after_save)

lemma third_load_eq: "header \<noteq> [] \<Longrightarrow> third_load p header = second_load p header"
  by (simp add: third_load_def load_after_save second_load_eq reloaded_idem)

lemma dict_row_full_Str:
  assumes "length fns \<le> length r"
  shows "dict_row fns r c \<noteq> Some PyNone"
proof
  assume a: "dict_row fns r c = Some PyNone"
  from assms have "dict_row fns r = map_of (rev (zip fns (map Str r)))"
    by (simp add: dict_row_def)
  with a have "map_of (rev (zip fns (map Str r))) c = Some PyNone" by simp
  then have "(c, PyNone) \<in> set (rev (zip fns (map Str r)))" by (rule map_of_SomeD)
  then have "PyNone \<in> set (map Str r)" by (auto dest: set_zip_rightD)
  then show False by auto
qed

lemma reloaded_full:
  assumes "\<And>c. r c \<noteq> Some PyNone"
  shows "reloaded header (dict_comp header (\<lambda>c. dict_get r c (Str [])))
           = dict_comp header (\<lambda>c. dict_get r c (Str []))"
  unfolding reloaded_def
proof (rule dict_comp_cong)
  fix k assume k: "k \<in> set header"
  have "\<exists>s. dict_get r k (Str []) = Str s"
    using assms[of k] by (cases "r k") (auto simp: dict_get_def intro: pyval.exhaust)
  then show "Str (csv_field (dict_get (dict_comp header (\<lambda>c. dict_get r c (Str []))) k (Str [])))
      = dict_get r k (Str [])"
    using k by (auto simp: dict_get_comp csv_field_def)
qed

lemma load_save_load_full:
  assumes ne: "header \<noteq> []" and full: "full_rows f"
  shows "second_load (Some f) header = first_load (Some f) header"
proof -
  have "reloaded header (dict_comp header (\<lambda>c. dict_get r c (Str [])))
           = dict_comp header (\<lambda>c. dict_get r c (Str []))"
    if "r \<in> set (DictReader f)" for r
  proof (rule reloaded_full)
    fix c
    from that obtain fns records rec where f: "f = fns # records"
      and rec: "rec \<in> set records" "rec \<noteq> []" and r: "r = dict_row fns rec"
      by (cases f) (auto simp: DictReader_def)
    from full f rec have "length fns \<le> length rec"
      by (auto simp: full_rows_def list_all_iff)
    then show "r c \<noteq> Some PyNone" unfolding r by (rule dict_row_full_Str)
  qed
  then have "map (reloaded header) (first_load (Some f) header) = first_load (Some f) header"
    by (simp add: first_load_eq ensure_csv_def map_idI)
  then show ?thesis by (simp add: second_load_eq[OF ne])
qed

lemma DictReader_short_row_file:
  "DictReader short_row_file =
     [dict_row JOB_COLS [''2024-01-01'', ''bracket'', ''100'', ''success'', [], []],
      dict_row JOB_COLS [''2024-01-02'', ''clip'']]"
  by (simp add: DictReader_def short_row_file_def)

lemma short_row_status:
  "dict_row JOB_COLS [''2024-01-02'', ''clip''] ''Status'' = Some PyNone"
  by (simp add: dict_row_def JOB_COLS_def)

lemma short_row_first_load:
  "(first_load (Some short_row_file) JOB_COLS ! 1) ''Status'' = Some PyNone"
proof -
  have "''Status'' \<in> set JOB_COLS" by (simp add: JOB_COLS_def)
  then show ?thesis
    by (simp add: first_load_eq ensure_csv_def DictReader_short_row_file dict_comp_apply
        dict_get_def short_row_status)
qed

lemma short_row_second_load:
  "(second_load (Some short_row_file) JOB_COLS ! 1) ''Status'' = Some (Str [])"
proof -
  have m: "''Status'' \<in> set JOB_COLS" by (simp add: JOB_COLS_def)
  have "second_load (Some short_row_file) JOB_COLS ! 1
      = reloaded JOB_COLS (first_load (Some short_row_file) JOB_COLS ! 1)"
    by (simp add: second_load_eq JOB_COLS_ne first_load_eq ensure_csv_def
        DictReader_short_row_file)
  then show ?thesis using m short_row_first_load
    by (simp add: reloaded_def dict_comp_apply dict_get_def csv_field_def)
qed

text \<open>
  Claim C8, on a jobs file whose second data row has two fields only. The first load
  gives that row \<open>None\<close> in the columns the row lacks (\<open>r.get(col, "")\<close> finds the key,
  with the value \<open>None\<close> that \<open>DictReader\<close> put there); saving writes them empty, and
  the second load gives the empty string: the records of the second load are not those
  of the first.
\<close>

theorem short_row_not_reloaded:
  "(first_load (Some short_row_file) JOB_COLS ! 1) ''Status'' = Some PyNone
   \<and> (second_load (Some short_row_file) JOB_COLS ! 1) ''Status'' = Some (Str [])
   \<and> second_load (Some short_row_file) JOB_COLS \<noteq> first_load (Some short_row_file) JOB_COLS"
proof (intro conjI)
  show "(first_load (Some short_row_file) JOB_COLS ! 1) ''Status'' = Some PyNone"
    by (rule short_row_first_load)
  show "(second_load (Some short_row_file) JOB_COLS ! 1) ''Status'' = Some (Str [])"
    by (rule short_row_second_load)
  show "second_load (Some short_row_file) JOB_COLS \<noteq> first_load (Some short_row_file) JOB_COLS"
  proof
    assume "second_load (Some short_row_file) JOB_COLS = first_load (Some short_row_file) JOB_COLS"
    then have "(second_load (Some short_row_file) JOB_COLS ! 1) ''Status''
        = (first_load (Some short_row_file) JOB_COLS ! 1) ''Status''" by simp
    then show False using short_row_first_load short_row_second_load by simp
  qed
qed

text \<open>
  What does hold of a load, a save and a load: the second load is the first with every
  value written and read back; the third load is the second; and on a file none of whose
  data rows is shorter than its header, the second load is the first.
\<close>

lemma load_save_load:
  "header \<noteq> [] \<longrightarrow>
     second_load p header = map (reloaded header) (first_load p header)
     \<and> third_load p header = second_load p header
     \<and> (\<forall>f. p = Some f \<and> full_rows f \<longrightarrow> second_load p header = first_load p header)"
proof (intro impI conjI allI)
  assume ne: "header \<noteq> []"
  show "second_load p header = map (reloaded header) (first_load p header)"
    by (rule second_load_eq[OF ne])
  show "third_load p header = second_load p header" by (rule third_load_eq[OF ne])
  fix f assume "p = Some f \<and> full_rows f"
  then show "second_load p header = first_load p header"
    using load_save_load_full[OF ne, of f] by simp
qed

lemma legacy_jobs_migrated:
  "jobs_migration (Some legacy_jobs_file) =
     Some [JOB_COLS,
           [''2024-01-01'', ''bracket'', ''100'', ''success'', [], []],
           [''2024-01-02'', ''clip'', ''50'', ''failed'', ''10'', []]]"
proof -
  have h: "\<not> has_column ''Spool ID'' legacy_jobs_file"
    by (simp add: has_column_def legacy_jobs_file_def)
  have d: "DictReader legacy_jobs_file =
     [dict_row [''Date'', ''Name of Job'', ''Grams Potential'', ''Status'', ''Lost (g)'']
        [''2024-01-01'', ''bracket'', ''100'', ''success'', []],
      dict_row [''Date'', ''Name of Job'', ''Grams Potential'', ''Status'', ''Lost (g)'']
        [''2024-01-02'', ''clip'', ''50'', ''failed'', ''10'']]"
    by (simp add: DictReader_def legacy_jobs_file_def)
  show ?thesis
    unfolding jobs_migration_writes[OF h] d
    by (simp add: JOB_COLS_def dict_row_def dict_get_def csv_field_def)
qed

lemma legacy_spools_migrated:
  "spools_migration (Some legacy_spools_file) =
     Some [SPOOL_COLS,
           [''SP-20240101-0001'', ''Other'', [], ''Black'', [], ''1000'', [], ''2024-01-01'']]"
proof -
  have h: "\<not> has_column ''Other Material'' legacy_spools_file"
    by (simp add: has_column_def legacy_spools_file_def)
  have d: "DictReader legacy_spools_file =
     [dict_row [''Spool ID'', ''Material'', ''Color'', ''Other Color'', ''Spool Size (g)'',
         ''Notes'', ''Created'']
        [''SP-20240101-0001'', ''Other'', ''Black'', [], ''1000'', [], ''2024-01-01'']]"
    by (simp add: DictReader_def legacy_spools_file_def)
  show ?thesis
    unfolding spools_migration_writes[OF h] d
    by (simp add: SPOOL_COLS_def dict_row_def dict_get_def csv_field_def)
qed

lemma lacks_not_has: "lacks_column col f \<Longrightarrow> \<not> has_column col f"
  by (cases f) (simp_all add: lacks_column_def has_column_def)

lemma extra_column_migrated:
  "jobs_migration (Some extra_column_file) =
     Some [JOB_COLS, [''2024-01-01'', ''bracket'', ''100'', ''success'', [], []]]"
proof -
  have h: "\<not> has_column ''Spool ID'' extra_column_file"
    by (simp add: has_column_def extra_column_file_def)
  have d: "DictReader extra_column_file =
     [dict_row [''Date'', ''Name of Job'', ''Grams Potential'', ''Status'', ''Lost (g)'',
         ''Finish'']
        [''2024-01-01'', ''bracket'', ''100'', ''success'', [], ''glossy'']]"
    by (simp add: DictReader_def extra_column_file_def)
  show ?thesis
    unfolding jobs_migration_writes[OF h] d
    by (simp add: JOB_COLS_def dict_row_def dict_get_def csv_field_def)
qed

text \<open>
  Claim C7 as it is worded, with all other field values preserved, does not hold of a
  legacy file that has a column outside the schema: the rewritten file has the columns of
  the schema only, and the value \<open>glossy\<close> of the old file is nowhere in the new one.
\<close>

theorem extra_column_not_kept:
  "lacks_column ''Spool ID'' extra_column_file
   \<and> ''glossy'' \<in> set (concat extra_column_file)
   \<and> jobs_migration (Some extra_column_file) =
       Some [JOB_COLS, [''2024-01-01'', ''bracket'', ''100'', ''success'', [], []]]
   \<and> ''glossy'' \<notin> set (concat [JOB_COLS,
                                  [''2024-01-01'', ''bracket'', ''100'', ''success'', [], []]])"
proof (intro conjI)
  show "lacks_column ''Spool ID'' extra_column_file"
    by (simp add: lacks_column_def extra_column_file_def)
  show "''glossy'' \<in> set (concat extra_column_file)"
    by (simp add: extra_column_file_def)
  show "jobs_migration (Some extra_column_file) =
       Some [JOB_COLS, [''2024-01-01'', ''bracket'', ''100'', ''success'', [], []]]"
    by (rule extra_column_migrated)
  show "''glossy'' \<notin> set (concat [JOB_COLS,
                                  [''2024-01-01'', ''bracket'', ''100'', ''success'', [], []]])"
    by (simp add: JOB_COLS_def)
qed

text \<open>
  On a file that starts with a blank line the blank record is the header: the file is
  rewritten although its second record names the column, and every value in it becomes
  the empty string.
\<close>

lemma blank_first_line_migrated:
  "jobs_migration (Some blank_first_line_file) =
     Some [JOB_COLS, [[], [], [], [], [], []], [[], [], [], [], [], []]]"
proof -
  have h: "\<not> has_column ''Spool ID'' blank_first_line_file"
    by (simp add: has_column_def blank_first_line_file_def)
  have d: "DictReader blank_first_line_file =
     [dict_row [] JOB_COLS,
      dict_row [] [''2024-01-01'', ''bracket'', ''100'', ''success'', [], ''SP-20240101-0001'']]"
    by (simp add: DictReader_def blank_first_line_file_def JOB_COLS_def)
  show ?thesis
    unfolding jobs_migration_writes[OF h] d
    by (simp add: JOB_COLS_def dict_row_def dict_get_def csv_field_def)
qed

lemma migrated_record_reads:
  "schema \<noteq> [] \<Longrightarrow>
   DictReader (schema # map (migrated_record schema col) rows) = map (migrated_row schema col) rows"
proof -
  assume ne: "schema \<noteq> []"
  have "migrated_record schema col
      = (\<lambda>r. map (\<lambda>c. if c = col then [] else csv_field (dict_get r c (Str []))) schema)"
    by (rule ext) (simp add: migrated_record_def)
  then show ?thesis using DictReader_migrated[OF ne, of col rows] by simp
qed

text \<open>
  Claim C7, amended. The migration at start-up is idempotent: run on the file that a
  first run leaves, it writes nothing, so the file stays byte for byte as the first run
  left it. When the header of the file, its first record, already names the new column
  (\<open>Spool ID\<close> in the jobs file, \<open>Other Material\<close> in the spools file) nothing is
  written at all. When the header is not blank and does not name it, the file is
  rewritten with the header of the schema and one record for every data row of the old
  file that is not blank, in the same order; a record has the columns of the schema and
  no other, the new column empty and every other one with the value that the old file
  had under the name of that column, empty where the row had none. Columns outside the
  schema and fields beyond the header are not carried over.
\<close>

theorem migration_idempotent:
  "jobs_migration (run_jobs_migration p) = None
   \<and> run_jobs_migration (run_jobs_migration p) = run_jobs_migration p
   \<and> spools_migration (run_spools_migration q) = None
   \<and> run_spools_migration (run_spools_migration q) = run_spools_migration q
   \<and> (has_column ''Spool ID'' f \<longrightarrow> jobs_migration (Some f) = None)
   \<and> (has_column ''Other Material'' g \<longrightarrow> spools_migration (Some g) = None)
   \<and> (lacks_column ''Spool ID'' f \<longrightarrow>
        jobs_migration (Some f)
          = Some (JOB_COLS # map (migrated_record JOB_COLS ''Spool ID'') (DictReader f))
        \<and> DictReader (JOB_COLS # map (migrated_record JOB_COLS ''Spool ID'') (DictReader f))
          = map (migrated_row JOB_COLS ''Spool ID'') (DictReader f))
   \<and> (lacks_column ''Other Material'' g \<longrightarrow>
        spools_migration (Some g)
          = Some (SPOOL_COLS # map (migrated_record SPOOL_COLS ''Other Material'') (DictReader g))
        \<and> DictReader (SPOOL_COLS # map (migrated_record SPOOL_COLS ''Other Material'')
                                      (DictReader g))
          = map (migrated_row SPOOL_COLS ''Other Material'') (DictReader g))"
proof (intro conjI impI)
  show "jobs_migration (run_jobs_migration p) = None" by (rule jobs_migration_twice)
  then show "run_jobs_migration (run_jobs_migration p) = run_jobs_migration p"
    by (simp add: run_jobs_migration_def[of "run_jobs_migration p"])
  show "spools_migration (run_spools_migration q) = None" by (rule spools_migration_twice)
  then show "run_spools_migration (run_spools_migration q) = run_spools_migration q"
    by (simp add: run_spools_migration_def[of "run_spools_migration q"])
next
  assume "has_column ''Spool ID'' f"
  then show "jobs_migration (Some f) = None" by (rule jobs_migration_has)
next
  assume "has_column ''Other Material'' g"
  then show "spools_migration (Some g) = None" by (rule spools_migration_has)
next
  assume "lacks_column ''Spool ID'' f"
  then have a: "\<not> has_column ''Spool ID'' f" by (rule lacks_not_has)
  show "jobs_migration (Some f)
          = Some (JOB_COLS # map (migrated_record JOB_COLS ''Spool ID'') (DictReader f))"
    unfolding jobs_migration_writes[OF a] by (simp add: migrated_record_def)
  show "DictReader (JOB_COLS # map (migrated_record JOB_COLS ''Spool ID'') (DictReader f))
          = map (migrated_row JOB_COLS ''Spool ID'') (DictReader f)"
    by (rule migrated_record_reads[OF JOB_COLS_ne])
next
  assume "lacks_column ''Other Material'' g"
  then have a: "\<not> has_column ''Other Material'' g" by (rule lacks_not_has)
  show "spools_migration (Some g)
          = Some (SPOOL_COLS # map (migrated_record SPOOL_COLS ''Other Material'') (DictReader g))"
    unfolding spools_migration_writes[OF a] by (simp add: migrated_record_def)
  show "DictReader (SPOOL_COLS # map (migrated_record SPOOL_COLS ''Other Material'')
                                      (DictReader g))
          = map (migrated_row SPOOL_COLS ''Other Material'') (DictReader g)"
    by (rule migrated_record_reads[OF SPOOL_COLS_ne])
qed

theorem migration_idempotent_witness:
  "has_column ''Spool ID'' short_row_file
   \<and> jobs_migration (Some short_row_file) = None
   \<and> has_column ''Other Material'' [SPOOL_COLS]
   \<and> spools_migration (Some [SPOOL_COLS]) = None
   \<and> lacks_column ''Spool ID'' legacy_jobs_file
   \<and> jobs_migration (Some legacy_jobs_file)
        = Some (JOB_COLS # map (migrated_record JOB_COLS ''Spool ID'')
                             (DictReader legacy_jobs_file))
   \<and> lacks_column ''Other Material'' legacy_spools_file
   \<and> spools_migration (Some legacy_spools_file)
        = Some (SPOOL_COLS # map (migrated_record SPOOL_COLS ''Other Material'')
                               (DictReader legacy_spools_file))"
proof -
  have h1: "has_column ''Spool ID'' short_row_file"
    by (simp add: has_column_def short_row_file_def JOB_COLS_def)
  have h2: "lacks_column ''Other Material'' legacy_spools_file"
    by (simp add: lacks_column_def legacy_spools_file_def)
  have h3: "has_column ''Other Material'' [SPOOL_COLS]"
    by (simp add: has_column_def SPOOL_COLS_def)
  have h4: "lacks_column ''Spool ID'' legacy_jobs_file"
    by (simp add: lacks_column_def legacy_jobs_file_def)
  show ?thesis
    using migration_idempotent[of None None short_row_file "[SPOOL_COLS]"]
      migration_idempotent[of None None legacy_jobs_file legacy_spools_file] h1 h2 h3 h4
    by blast
qed

section \<open>The spool ID generator on superscript digits\<close>

lemma prefix_example: "prefix_of ''20240101'' = ''SP-20240101-''"
  by (simp add: prefix_of_def)

lemma superscripts_isdigit:
  "isdigit [CHR 0xB2]" "isdigit [CHR 0xB3]" "isdigit [CHR 0xB9]"
  "\<not> all_decimal [CHR 0xB2]" "\<not> all_decimal [CHR 0xB3]" "\<not> all_decimal [CHR 0xB9]"
  by (simp_all add: isdigit_def isdigit_char_def all_decimal_def is_decimal_char_def)

lemma example_tails:
  "after_last_dash ''SP-20240101-0001'' = ''0001''"
  "after_last_dash ''SP-20240101-0003'' = ''0003''"
  "after_last_dash ''SP-20240101-9999'' = ''9999''"
  "after_last_dash ''SP-20240102-0007'' = ''0007''"
  "after_last_dash (''SP-20240101-'' @ [CHR 0xB2]) = [CHR 0xB2]"
  "after_last_dash (''SP-20240101-'' @ [CHR 0xB3]) = [CHR 0xB3]"
  "after_last_dash (''SP-20240101-'' @ [CHR 0xB9]) = [CHR 0xB9]"
  by (simp_all add: after_last_dash_def)

lemma example_starts:
  "startswith ''SP-20240101-0001'' ''SP-20240101-''"
  "startswith ''SP-20240101-0003'' ''SP-20240101-''"
  "startswith ''SP-20240101-9999'' ''SP-20240101-''"
  "\<not> startswith ''SP-20240102-0007'' ''SP-20240101-''"
  "startswith (''SP-20240101-'' @ [CHR 0xB2]) ''SP-20240101-''"
  "startswith (''SP-20240101-'' @ [CHR 0xB3]) ''SP-20240101-''"
  "startswith (''SP-20240101-'' @ [CHR 0xB9]) ''SP-20240101-''"
  by simp_all

lemma example_decimals:
  "all_decimal ''0001''" "all_decimal ''0003''" "all_decimal ''9999''"
  by (simp_all add: all_decimal_def is_decimal_char_def)

lemma example_values:
  "decimal_value ''0001'' = 1" "decimal_value ''0003'' = 3" "decimal_value ''9999'' = 9999"
  by (simp_all add: decimal_value_def digit_val_def)

lemma dec_examples: "dec 2 = ''2''" "dec 4 = ''4''" "dec 10000 = ''10000''"
  by (simp_all add: dec.simps digit_char_def)

lemma replicate_3: "replicate 3 c = [c, c, c]"
  by (simp add: numeral_3_eq_3)

lemma example_formats:
  "format_04d 2 = ''0002''" "format_04d 4 = ''0004''" "format_04d 10000 = ''10000''"
  by (simp_all add: format_04d_def dec_examples replicate_3)

lemma unreadable_superscript:
  "unreadable ''SP-20240101-'' (''SP-20240101-'' @ [CHR 0xB2])"
  "unreadable ''SP-20240101-'' (''SP-20240101-'' @ [CHR 0xB3])"
  "unreadable ''SP-20240101-'' (''SP-20240101-'' @ [CHR 0xB9])"
  unfolding unreadable_def example_tails
  using example_starts(5,6,7) superscripts_isdigit by blast+

lemma example_numbered:
  "numbered ''SP-20240101-'' ''SP-20240101-0001''"
  "numbered ''SP-20240101-'' ''SP-20240101-0003''"
  "numbered ''SP-20240101-'' ''SP-20240101-9999''"
  "\<not> numbered ''SP-20240101-'' ''SP-20240102-0007''"
  "\<not> numbered ''SP-20240101-'' (''SP-20240101-'' @ [CHR 0xB2])"
  "\<not> numbered ''SP-20240101-'' (''SP-20240101-'' @ [CHR 0xB9])"
  unfolding numbered_def example_tails
  using example_starts example_decimals superscripts_isdigit by blast+

lemma example_not_unreadable:
  "\<not> unreadable ''SP-20240101-'' ''SP-20240101-0001''"
  "\<not> unreadable ''SP-20240101-'' ''SP-20240101-0003''"
  "\<not> unreadable ''SP-20240101-'' ''SP-20240102-0007''"
  unfolding unreadable_def example_tails
  using example_starts example_decimals by blast+

lemma todays_numbers_Cons:
  "todays_numbers prefix (sid # ids) =
     (if numbered prefix sid then decimal_value (after_last_dash sid) # todays_numbers prefix ids
      else todays_numbers prefix ids)"
  "todays_numbers prefix [] = []"
  by (simp_all add: todays_numbers_def)

text \<open>
  What does hold of \<open>gen_spool_id\<close> as modelled: when no id of today is unreadable it returns the
  id of the specification, which is not among the existing ids, bears the date, and
  ends in a decimal number; that number has exactly four digits when every number of
  today is at most 9998, and is the largest number plus one, in more than four digits,
  when the largest is 9999 or more. Ids with another prefix play no part
  (\<open>other_dates_ignored\<close>).
\<close>

lemma gen_spool_id_readable:
  assumes "\<forall>sid \<in> set ids. \<not> unreadable (prefix_of date) sid"
  shows "gen_spool_id date ids = Inr (spec_spool_id date ids)"
    and "spec_spool_id date ids \<notin> set ids"
    and "spec_spool_id date ids = ''SP-'' @ date @ ''-'' @ next_suffix (prefix_of date) ids"
    and "all_decimal (next_suffix (prefix_of date) ids)"
proof -
  show "gen_spool_id date ids = Inr (spec_spool_id date ids)"
    using assms by (simp add: gen_spool_id_eq)
  show "spec_spool_id date ids \<notin> set ids" by (rule spec_spool_id_fresh)
  show "spec_spool_id date ids = ''SP-'' @ date @ ''-'' @ next_suffix (prefix_of date) ids"
    unfolding spec_spool_id_def by (simp add: prefix_of_def)
  show "all_decimal (next_suffix (prefix_of date) ids)" by (rule next_suffix_decimal)
qed

lemma next_suffix_width:
  "(\<forall>n \<in> set (todays_numbers prefix ids). n \<le> 9998) \<longrightarrow> length (next_suffix prefix ids) = 4"
  "todays_numbers prefix ids \<noteq> [] \<and> 9999 \<le> Max (set (todays_numbers prefix ids)) \<longrightarrow>
     next_suffix prefix ids = dec (Max (set (todays_numbers prefix ids)) + 1)
     \<and> 4 < length (next_suffix prefix ids)"
proof -
  let ?nums = "todays_numbers prefix ids"
  show "(\<forall>n \<in> set ?nums. n \<le> 9998) \<longrightarrow> length (next_suffix prefix ids) = 4"
  proof
    assume a: "\<forall>n \<in> set ?nums. n \<le> 9998"
    show "length (next_suffix prefix ids) = 4"
    proof (cases "?nums = []")
      case True
      then show ?thesis by (simp add: next_suffix_def)
    next
      case False
      then have "Max (set ?nums) \<in> set ?nums" by (intro Max_in) auto
      with a have "Max (set ?nums) + 1 < 10000" by auto
      from length_format_04d_small[OF this] show ?thesis using False
        by (simp add: next_suffix_def)
    qed
  qed
  show "?nums \<noteq> [] \<and> 9999 \<le> Max (set ?nums) \<longrightarrow>
     next_suffix prefix ids = dec (Max (set ?nums) + 1) \<and> 4 < length (next_suffix prefix ids)"
  proof
    assume a: "?nums \<noteq> [] \<and> 9999 \<le> Max (set ?nums)"
    then have "10000 \<le> Max (set ?nums) + 1" by simp
    from format_04d_large[OF this] a show "next_suffix prefix ids = dec (Max (set ?nums) + 1)
        \<and> 4 < length (next_suffix prefix ids)"
      by (simp add: next_suffix_def)
  qed
qed

lemma gen_spool_id_empty: "gen_spool_id date [] = Inr (''SP-'' @ date @ ''-0001'')"
  by (simp add: gen_spool_id_def prefix_of_def format_04d_one)

lemma spec_example:
  "gen_spool_id ''20240101'' [''SP-20240101-0001'', ''SP-20240101-0003'', ''SP-20240102-0007'']
     = Inr ''SP-20240101-0004''"
proof -
  let ?ids = "[''SP-20240101-0001'', ''SP-20240101-0003'', ''SP-20240102-0007'']"
  have n: "todays_numbers ''SP-20240101-'' ?ids = [1, 3]"
    by (simp only: todays_numbers_Cons example_numbered example_tails example_values if_True
        if_False)
  have "next_suffix ''SP-20240101-'' ?ids = format_04d 4"
    unfolding next_suffix_def n Let_def by simp
  then have s: "spec_spool_id ''20240101'' ?ids = ''SP-20240101-0004''"
    unfolding spec_spool_id_def prefix_example example_formats by simp
  have "\<not> (\<exists>sid \<in> set ?ids. unreadable ''SP-20240101-'' sid)"
    using example_not_unreadable by simp
  then show ?thesis unfolding gen_spool_id_eq prefix_example s by simp
qed

text \<open>
  Claim C3, on the ids \<open>SP-20240101-0001\<close> and \<open>SP-20240101-\<close> followed by U+00B2
  (superscript two), the date being 2024-01-01. The algorithm of the claim passes over
  the second id, whose part after the last \<open>-\<close> is no number, and gives
  \<open>SP-20240101-0002\<close>. In \<open>gen_spool_id\<close> the part passes \<open>isdigit\<close>, \<open>int\<close> is
  called on it and raises \<open>ValueError\<close>, and no id is returned.
\<close>

theorem gen_spool_id_superscript_two:
  "gen_spool_id ''20240101'' [''SP-20240101-0001'', ''SP-20240101-'' @ [CHR 0xB2]]
     = Inl ValueError
   \<and> spec_spool_id ''20240101'' [''SP-20240101-0001'', ''SP-20240101-'' @ [CHR 0xB2]]
     = ''SP-20240101-0002''"
proof
  let ?ids = "[''SP-20240101-0001'', ''SP-20240101-'' @ [CHR 0xB2]]"
  have "\<exists>sid \<in> set ?ids. unreadable ''SP-20240101-'' sid"
    using unreadable_superscript(1) by simp
  then show "gen_spool_id ''20240101'' ?ids = Inl ValueError"
    unfolding gen_spool_id_eq prefix_example by simp
  have n: "todays_numbers ''SP-20240101-'' ?ids = [1]"
    by (simp only: todays_numbers_Cons example_numbered example_tails example_values if_True
        if_False)
  have "next_suffix ''SP-20240101-'' ?ids = format_04d 2"
  proof -
    show ?thesis unfolding next_suffix_def n Let_def by (simp add: numeral_2_eq_2)
  qed
  then show "spec_spool_id ''20240101'' ?ids = ''SP-20240101-0002''"
    unfolding spec_spool_id_def prefix_example example_formats by simp
qed

text \<open>
  Claim C4, on the single id \<open>SP-20240101-\<close> followed by U+00B3 (superscript three),
  the date being 2024-01-01: \<open>gen_spool_id\<close> raises \<open>ValueError\<close> and returns no id, so
  there is no returned id to be absent from the list and to bear today's date.
\<close>

theorem gen_spool_id_superscript_three:
  "gen_spool_id ''20240101'' [''SP-20240101-'' @ [CHR 0xB3]] = Inl ValueError
   \<and> \<not> (\<exists>new. gen_spool_id ''20240101'' [''SP-20240101-'' @ [CHR 0xB3]] = Inr new)"
proof -
  have "\<exists>sid \<in> set [''SP-20240101-'' @ [CHR 0xB3]]. unreadable ''SP-20240101-'' sid"
    using unreadable_superscript(2) by simp
  then have "gen_spool_id ''20240101'' [''SP-20240101-'' @ [CHR 0xB3]] = Inl ValueError"
    unfolding gen_spool_id_eq prefix_example by simp
  then show ?thesis by simp
qed

text \<open>
  Claim C9, on the ids \<open>SP-20240101-9999\<close> and \<open>SP-20240101-\<close> followed by U+00B9
  (superscript one), the date being 2024-01-01: the largest number of today is 9999 and
  the id of the claim is \<open>SP-20240101-10000\<close>, with a suffix of five digits, but
  \<open>gen_spool_id\<close> fails with \<open>ValueError\<close>.
\<close>

theorem gen_spool_id_superscript_one:
  "gen_spool_id ''20240101'' [''SP-20240101-9999'', ''SP-20240101-'' @ [CHR 0xB9]]
     = Inl ValueError
   \<and> spec_spool_id ''20240101'' [''SP-20240101-9999'', ''SP-20240101-'' @ [CHR 0xB9]]
     = ''SP-20240101-10000''"
proof
  let ?ids = "[''SP-20240101-9999'', ''SP-20240101-'' @ [CHR 0xB9]]"
  have "\<exists>sid \<in> set ?ids. unreadable ''SP-20240101-'' sid"
    using unreadable_superscript(3) by simp
  then show "gen_spool_id ''20240101'' ?ids = Inl ValueError"
    unfolding gen_spool_id_eq prefix_example by simp
  have n: "todays_numbers ''SP-20240101-'' ?ids = [9999]"
    by (simp only: todays_numbers_Cons example_numbered example_tails example_values if_True
        if_False)
  have "next_suffix ''SP-20240101-'' ?ids = format_04d 10000"
    unfolding next_suffix_def n Let_def by simp
  then show "spec_spool_id ''20240101'' ?ids = ''SP-20240101-10000''"
    unfolding spec_spool_id_def prefix_example example_formats by simp
qed

end
